theory Spec2Isabelle
  imports Complex_Main "HOL-Library.Char_ord" "HOL-Library.List_Lexorder"
begin

section \<open>Values of the runtime\<close>

text \<open>
  A parsed response body: the values \<open>JSON.parse\<close> yields, and \<open>undefined\<close> for a
  property that is not there. An object is the list of its own properties; a lookup
  takes the first entry of a key.
\<close>

datatype jsval =
    JUndefined
  | JNull
  | JBool bool
  | JNum real
  | JStr string
  | JArr "jsval list"
  | JObj "(string \<times> jsval) list"

text \<open>The truthiness that \<open>&&\<close>, \<open>||\<close> and \<open>if\<close> test.\<close>

fun truthy :: "jsval \<Rightarrow> bool" where
  "truthy JUndefined = False"
| "truthy JNull = False"
| "truthy (JBool b) = b"
| "truthy (JNum r) = (r \<noteq> 0)"
| "truthy (JStr s) = (s \<noteq> [])"
| "truthy (JArr xs) = True"
| "truthy (JObj kvs) = True"

text \<open>
  What a \<open>try\<close> block can throw: an \<open>ApiError\<close> (declared below) or any other
  exception, of which only the message is kept.
\<close>

record ApiError =
  message :: string
  statusCode :: "int option"
  response :: "jsval option"

datatype thrown = ThrownApiError ApiError | ThrownOther string

text \<open>
  The expression \<open>'data' in v\<close>. On an object it tests the key; an array has no
  property \<open>data\<close>; on every value that is not an object the operator throws a
  \<open>TypeError\<close>.
\<close>

fun data_in :: "jsval \<Rightarrow> thrown + bool" where
  "data_in (JObj kvs) = Inr (map_of kvs ''data'' \<noteq> None)"
| "data_in (JArr xs) = Inr False"
| "data_in v = Inl (ThrownOther ''TypeError'')"

text \<open>The property read \<open>v.data\<close>, used once \<open>'data' in v\<close> holds.\<close>

fun get_data :: "jsval \<Rightarrow> jsval" where
  "get_data (JObj kvs) = (case map_of kvs ''data'' of Some v \<Rightarrow> v | None \<Rightarrow> JUndefined)"
| "get_data v = JUndefined"

text \<open>
  \<open>String.prototype.trim\<close> and \<open>toLowerCase\<close>, on ASCII strings: the white space
  removed is tab, line feed, vertical tab, form feed, carriage return and space, and the
  letters lowered are \<open>A\<close> to \<open>Z\<close>.
\<close>

definition isWhiteSpace :: "char \<Rightarrow> bool" where
  "isWhiteSpace c = (let n = (of_char c :: nat) in (9 \<le> n \<and> n \<le> 13) \<or> n = 32)"

definition trim :: "string \<Rightarrow> string" where
  "trim s = rev (dropWhile isWhiteSpace (rev (dropWhile isWhiteSpace s)))"

definition lowerChar :: "char \<Rightarrow> char" where
  "lowerChar c =
     (let n = (of_char c :: nat) in if 65 \<le> n \<and> n \<le> 90 then char_of (n + 32) else c)"

definition toLowerCase :: "string \<Rightarrow> string" where
  "toLowerCase s = map lowerChar s"

text \<open>
  \<open>a || b\<close> on values of type \<open>string | undefined\<close>: the empty string and
  \<open>undefined\<close> are both falsy, so one empty string stands for both.
\<close>

definition or_else :: "string \<Rightarrow> string \<Rightarrow> string" where
  "or_else a b = (if a \<noteq> [] then a else b)"

text \<open>A browser \<open>File\<close>: its \<open>name\<close>, its MIME \<open>type\<close> and its \<open>size\<close> in bytes.\<close>

record File =
  file_name :: string
  file_type :: string
  file_size :: nat

section \<open>The API client\<close>

text \<open>
  A request as an accessor hands it to the client: the method, the path, and the query
  parameters, form fields or JSON body as a list of named fields in the order the
  accessor adds them. A number or a flag that the code turns into text with
  \<open>String(...)\<close> is kept as the number or the flag.
\<close>

datatype http_method = GET | POST | PUT

datatype field = FNum real | FStr string | FBool bool | FFile File

record request =
  req_method :: http_method
  url :: string
  payload :: "(string \<times> field) list"

text \<open>
  The error axios rejects with: \<open>error.response\<close> (status and body) when the server
  answered, whether \<open>error.request\<close> is set, and \<open>error.message\<close>.
\<close>

record AxiosError =
  err_response :: "(int \<times> jsval) option"
  err_request :: bool
  err_message :: string

text \<open>
  The configured client: its base URL and the transport below the interceptors, which
  either rejects with an \<open>AxiosError\<close> or resolves with the parsed body. The backend
  is outside the repository, so the transport is a parameter.
\<close>

record 'r apiClient =
  baseURL :: string
  transport :: "request \<Rightarrow> AxiosError + 'r"

text \<open>
  \<open>data?.k\<close> at its declared type \<open>string | undefined\<close> (the code casts the body to
  \<open>{ error?: string; detail?: string; message?: string }\<close>); the empty string stands
  for a missing property.
\<close>

fun str_prop :: "string \<Rightarrow> jsval \<Rightarrow> string" where
  "str_prop k (JObj kvs) = (case map_of kvs k of Some (JStr s) \<Rightarrow> s | _ \<Rightarrow> [])"
| "str_prop k v = []"

definition newApiError :: "string \<Rightarrow> int \<Rightarrow> jsval option \<Rightarrow> ApiError" where
  "newApiError msg code resp = \<lparr>message = msg, statusCode = Some code, response = resp\<rparr>"

text \<open>
  The rejection handler of the response interceptor: every \<open>AxiosError\<close> leaves the
  client as an \<open>ApiError\<close>. \<open>API_BASE_URL\<close> comes from the environment and is an
  argument. What the handler writes to the console, and its removal of the stored token
  on status 401, are left out.
\<close>

definition responseRejected :: "string \<Rightarrow> AxiosError \<Rightarrow> ApiError" where
  "responseRejected API_BASE_URL error =
     (case err_response error of
        Some (status, data) \<Rightarrow>
          (let errorMessage =
                 or_else (str_prop ''error'' data)
                   (or_else (str_prop ''detail'' data)
                     (or_else (str_prop ''message'' data) (err_message error)))
           in if status = 400 then
                newApiError (or_else errorMessage ''Invalid request'') 400 (Some data)
              else if status = 401 then
                newApiError ''Unauthorized access'' 401 (Some data)
              else if status = 403 then
                newApiError (or_else errorMessage ''Access forbidden'') 403 (Some data)
              else if status = 404 then
                newApiError ''Resource not found'' 404 (Some data)
              else if status = 500 then
                newApiError (or_else errorMessage ''Internal server error'') 500 (Some data)
              else if status = 503 then
                newApiError (or_else errorMessage ''Service temporarily unavailable'') 503
                  (Some data)
              else
                newApiError (or_else errorMessage ''An error occurred'') status (Some data))
      | None \<Rightarrow>
          if err_request error then
            newApiError
              (''Network error: Unable to reach server at '' @ API_BASE_URL @
               ''. Please ensure the backend is running.'') 0 None
          else
            newApiError (or_else (err_message error) ''Request setup failed'') 0 None)"

text \<open>
  One call of \<open>apiClient.get\<close>, \<open>post\<close> or \<open>put\<close> followed by \<open>response.data\<close>:
  the body, or the \<open>ApiError\<close> the interceptor throws. The request interceptor, which
  adds the bearer token and logs, is left out.
\<close>

definition send :: "'r apiClient \<Rightarrow> request \<Rightarrow> thrown + 'r" where
  "send api req =
     (case transport api req of
        Inr data \<Rightarrow> Inr data
      | Inl error \<Rightarrow> Inl (ThrownApiError (responseRejected (baseURL api) error)))"

section \<open>Resource accessors\<close>

text \<open>
  An accessor returns the list of requests it issued together with its result: the
  \<open>ApiError\<close> it throws, or the value it resolves with. A \<open>number\<close> argument is a
  real; the value \<open>NaN\<close> is left out.
\<close>

type_synonym 'a accessed = "request list \<times> (ApiError + 'a)"

text \<open>\<open>throw new ApiError(msg, code)\<close> before any request.\<close>

definition throwApiError :: "string \<Rightarrow> int \<Rightarrow> 'a accessed" where
  "throwApiError msg code = ([], Inl (newApiError msg code None))"

text \<open>
  The \<open>catch\<close> clause every accessor ends with:
  \<open>if (error instanceof ApiError) throw error; throw new ApiError(msg, 500)\<close>.
\<close>

definition catchClause :: "string \<Rightarrow> thrown + 'a \<Rightarrow> ApiError + 'a" where
  "catchClause msg r =
     (case r of
        Inr v \<Rightarrow> Inr v
      | Inl (ThrownApiError e) \<Rightarrow> Inl e
      | Inl (ThrownOther m) \<Rightarrow> Inl (newApiError msg 500 None))"

text \<open>
  The lines the criminals and alerts accessors repeat after their request:
  \<open>if (response.data && 'data' in response.data) return response.data.data;
  return response.data\<close>.
\<close>

definition unwrapData :: "jsval \<Rightarrow> thrown + jsval" where
  "unwrapData data =
     (if truthy data then
        (case data_in data of
           Inl e \<Rightarrow> Inl e
         | Inr True \<Rightarrow> Inr (get_data data)
         | Inr False \<Rightarrow> Inr data)
      else Inr data)"

text \<open>
  The query parameters of the criminals list; the fields carry the prefix \<open>cq\<close>, those
  of the alerts list the prefix \<open>aq\<close>.
\<close>

record CriminalsQueryParams =
  cq_limit :: "real option"
  cq_offset :: "real option"
  cq_search :: "string option"
  cq_crime_type :: "string option"
  cq_state :: "string option"
  cq_district :: "string option"
  cq_gender :: "string option"

record AlertsQueryParams =
  aq_status :: "string option"
  aq_limit :: "real option"
  aq_offset :: "real option"

text \<open>\<open>params?.f ?? d\<close>.\<close>

definition param_or :: "'p option \<Rightarrow> ('p \<Rightarrow> 'v option) \<Rightarrow> 'v \<Rightarrow> 'v" where
  "param_or params f d =
     (case params of None \<Rightarrow> d | Some p \<Rightarrow> (case f p of None \<Rightarrow> d | Some v \<Rightarrow> v))"

text \<open>
  \<open>if (params?.f && params.f.trim()) queryParams.f = params.f.trim()\<close>: the entry
  the line adds, if any.
\<close>

definition trimmed_param :: "string \<Rightarrow> 'p option \<Rightarrow> ('p \<Rightarrow> string option) \<Rightarrow> (string \<times> field) list" where
  "trimmed_param k params f =
     (case params of
        None \<Rightarrow> []
      | Some p \<Rightarrow>
          (case f p of
             None \<Rightarrow> []
           | Some s \<Rightarrow> if s \<noteq> [] \<and> trim s \<noteq> [] then [(k, FStr (trim s))] else []))"

definition getCriminals :: "CriminalsQueryParams option \<Rightarrow> jsval apiClient \<Rightarrow> jsval accessed" where
  "getCriminals params api =
     (let limit = param_or params cq_limit 100;
          offset = param_or params cq_offset 0
      in if limit < 1 \<or> limit > 1000 then
           throwApiError ''limit must be between 1 and 1000'' 400
         else if offset < 0 then
           throwApiError ''offset must be non-negative'' 400
         else
           (let queryParams =
                  [(''limit'', FNum limit), (''offset'', FNum offset)]
                  @ trimmed_param ''search'' params cq_search
                  @ trimmed_param ''crime_type'' params cq_crime_type
                  @ trimmed_param ''state'' params cq_state
                  @ trimmed_param ''district'' params cq_district
                  @ trimmed_param ''gender'' params cq_gender;
                req = \<lparr>req_method = GET, url = ''/api/v1/criminals'', payload = queryParams\<rparr>
            in ([req],
                catchClause ''Failed to retrieve criminals''
                  (case send api req of Inl e \<Rightarrow> Inl e | Inr data \<Rightarrow> unwrapData data))))"

definition getCriminal :: "string \<Rightarrow> jsval apiClient \<Rightarrow> jsval accessed" where
  "getCriminal personId api =
     (if personId = [] \<or> trim personId = [] then
        throwApiError ''personId is required'' 400
      else
        (let req = \<lparr>req_method = GET, url = ''/api/v1/criminals/'' @ trim personId, payload = []\<rparr>
         in ([req],
             catchClause ''Failed to retrieve criminal''
               (case send api req of Inl e \<Rightarrow> Inl e | Inr data \<Rightarrow> unwrapData data))))"

definition getAlerts :: "AlertsQueryParams option \<Rightarrow> jsval apiClient \<Rightarrow> jsval accessed" where
  "getAlerts params api =
     (let limit = param_or params aq_limit 100;
          offset = param_or params aq_offset 0
      in if limit < 1 \<or> limit > 1000 then
           throwApiError ''limit must be between 1 and 1000'' 400
         else if offset < 0 then
           throwApiError ''offset must be non-negative'' 400
         else
           (let queryParams =
                  [(''limit'', FNum limit), (''offset'', FNum offset)]
                  @ (case params of
                       None \<Rightarrow> []
                     | Some p \<Rightarrow>
                         (case aq_status p of
                            None \<Rightarrow> []
                          | Some s \<Rightarrow> if s \<noteq> [] then [(''status'', FStr s)] else []));
                req = \<lparr>req_method = GET, url = ''/api/v1/alerts'', payload = queryParams\<rparr>
            in ([req],
                catchClause ''Failed to retrieve alerts''
                  (case send api req of Inl e \<Rightarrow> Inl e | Inr data \<Rightarrow> unwrapData data))))"

definition getAlert :: "string \<Rightarrow> jsval apiClient \<Rightarrow> jsval accessed" where
  "getAlert alertId api =
     (if alertId = [] \<or> trim alertId = [] then
        throwApiError ''alertId is required'' 400
      else
        (let req = \<lparr>req_method = GET, url = ''/api/v1/alerts/'' @ alertId, payload = []\<rparr>
         in ([req],
             catchClause ''Failed to retrieve alert''
               (case send api req of Inl e \<Rightarrow> Inl e | Inr data \<Rightarrow> unwrapData data))))"

definition validStatuses :: "string list" where
  "validStatuses = [''Pending'', ''Verified'', ''Rejected'']"

definition updateAlertStatus :: "string \<Rightarrow> string \<Rightarrow> jsval apiClient \<Rightarrow> jsval accessed" where
  "updateAlertStatus alertId status api =
     (if alertId = [] \<or> trim alertId = [] then
        throwApiError ''alertId is required'' 400
      else if status \<notin> set validStatuses then
        throwApiError ''Invalid status. Must be one of: Pending, Verified, Rejected'' 400
      else
        (let req = \<lparr>req_method = PUT, url = ''/api/v1/alerts/'' @ alertId @ ''/status'',
                    payload = [(''status'', FStr status)]\<rparr>
         in ([req],
             catchClause ''Failed to update alert status''
               (case send api req of Inl e \<Rightarrow> Inl e | Inr data \<Rightarrow> unwrapData data))))"

text \<open>
  \<open>updateCriminal\<close>. The fields of \<open>updateData\<close> carry the prefix \<open>upd\<close>;
  \<open>None\<close> is \<open>undefined\<close>. For a string \<open>v\<close> the expression \<open>v || ''\<close> is \<open>v\<close>.
\<close>

record CriminalUpdate =
  upd_name :: "string option"
  upd_crime_type :: "string option"
  upd_state :: "string option"
  upd_district :: "string option"
  upd_gender :: "string option"
  upd_image :: "File option"

definition text_field :: "string \<Rightarrow> string option \<Rightarrow> (string \<times> field) list" where
  "text_field k v = (case v of None \<Rightarrow> [] | Some s \<Rightarrow> [(k, FStr s)])"

definition updateCriminal :: "string \<Rightarrow> CriminalUpdate \<Rightarrow> jsval apiClient \<Rightarrow> jsval accessed" where
  "updateCriminal personId updateData api =
     (if personId = [] \<or> trim personId = [] then
        throwApiError ''personId is required'' 400
      else
        (let formData =
               text_field ''name'' (upd_name updateData)
               @ text_field ''crime_type'' (upd_crime_type updateData)
               @ text_field ''state'' (upd_state updateData)
               @ text_field ''district'' (upd_district updateData)
               @ text_field ''gender'' (upd_gender updateData)
               @ (case upd_image updateData of None \<Rightarrow> [] | Some i \<Rightarrow> [(''image'', FFile i)]);
             req = \<lparr>req_method = PUT, url = ''/api/v1/criminals/'' @ trim personId,
                    payload = formData\<rparr>
         in ([req],
             catchClause ''Failed to update criminal''
               (case send api req of Inl e \<Rightarrow> Inl e | Inr data \<Rightarrow> unwrapData data))))"

text \<open>
  \<open>matchFace\<close>. The defaults of the optional arguments (5, 80.0, true) are the
  caller's to pass; the argument \<open>image\<close> is \<open>image_file\<close> here, \<open>None\<close> when the
  caller passes no file. The body is
  returned as it arrives (\<open>return response.data\<close>), at whatever type \<open>'r\<close> it has.
\<close>

definition matchFace ::
  "File option \<Rightarrow> real \<Rightarrow> real \<Rightarrow> bool \<Rightarrow> string option \<Rightarrow> 'r apiClient \<Rightarrow> 'r accessed" where
  "matchFace image_file maxResults similarityThreshold createAlert senderId api =
     (case image_file of
        None \<Rightarrow> throwApiError ''Image file is required'' 400
      | Some img \<Rightarrow>
          if maxResults < 1 \<or> maxResults > 100 then
            throwApiError ''maxResults must be between 1 and 100'' 400
          else if similarityThreshold < 0 \<or> similarityThreshold > 100 then
            throwApiError ''similarityThreshold must be between 0 and 100'' 400
          else
            (let formData =
                   [(''image'', FFile img),
                    (''max_results'', FNum maxResults),
                    (''similarity_threshold'', FNum similarityThreshold),
                    (''create_alert'', FBool createAlert)]
                   @ (case senderId of
                        None \<Rightarrow> []
                      | Some s \<Rightarrow> if s \<noteq> [] then [(''sender_id'', FStr s)] else []);
                 req = \<lparr>req_method = POST, url = ''/api/v1/match'', payload = formData\<rparr>
             in ([req], catchClause ''Failed to match face'' (send api req))))"

text \<open>\<open>uploadSingleImage\<close> and the list of MIME types it accepts.\<close>

definition validTypes :: "string list" where
  "validTypes = [''image/jpeg'', ''image/jpg'', ''image/png'', ''image/bmp'', ''image/gif'']"

definition uploadSingleImage ::
  "File option \<Rightarrow> string \<Rightarrow> string option \<Rightarrow> string \<Rightarrow> string option \<Rightarrow> string \<Rightarrow> string \<Rightarrow>
   string \<Rightarrow> bool \<Rightarrow> 'r apiClient \<Rightarrow> 'r accessed" where
  "uploadSingleImage image_file name personId crimeType gender state district ageRange
     applyAugmentations api =
     (case image_file of
        None \<Rightarrow> throwApiError ''Image file is required'' 400
      | Some img \<Rightarrow>
          if name = [] \<or> trim name = [] then
            throwApiError ''Name is required'' 400
          else if toLowerCase (file_type img) \<notin> set validTypes then
            throwApiError ''Invalid image type. Supported: JPEG, PNG, BMP, GIF'' 400
          else
            (let formData =
                   [(''image'', FFile img), (''name'', FStr (trim name))]
                   @ (case personId of
                        None \<Rightarrow> []
                      | Some p \<Rightarrow>
                          if p \<noteq> [] \<and> trim p \<noteq> [] then [(''person_id'', FStr (trim p))] else [])
                   @ [(''state'', FStr (trim state)),
                      (''district'', FStr (trim district)),
                      (''age_range'', FStr (trim ageRange)),
                      (''crime_type'', FStr (trim crimeType))]
                   @ (case gender of
                        None \<Rightarrow> []
                      | Some g \<Rightarrow>
                          if g \<noteq> [] \<and> trim g \<noteq> [] then
                            [(''gender'', FStr (toLowerCase (trim g)))]
                          else [])
                   @ [(''apply_augmentations'', FBool applyAugmentations)];
                 req = \<lparr>req_method = POST, url = ''/api/v1/enroll/image'', payload = formData\<rparr>
             in ([req], catchClause ''Failed to enroll image'' (send api req))))"

text \<open>
  \<open>if (v && v.trim()) formData.append(k, v.trim())\<close> for an optional string \<open>v\<close>:
  the entry the line adds, if any.
\<close>

definition optional_trimmed :: "string \<Rightarrow> string option \<Rightarrow> (string \<times> field) list" where
  "optional_trimmed k v =
     (case v of
        None \<Rightarrow> []
      | Some s \<Rightarrow> if s \<noteq> [] \<and> trim s \<noteq> [] then [(k, FStr (trim s))] else [])"

text \<open>
  \<open>uploadMultipleImages\<close>. The loop over the images throws at the first image whose
  type is not valid, with a message that names that image.
\<close>

definition uploadMultipleImages ::
  "File list \<Rightarrow> string \<Rightarrow> string option \<Rightarrow> string option \<Rightarrow> bool \<Rightarrow> 'r apiClient \<Rightarrow> 'r accessed" where
  "uploadMultipleImages images name personId crimeType applyAugmentations api =
     (if images = [] then
        throwApiError ''At least one image is required'' 400
      else if name = [] \<or> trim name = [] then
        throwApiError ''Name is required'' 400
      else
        (case find (\<lambda>i. toLowerCase (file_type i) \<notin> set validTypes) images of
           Some bad \<Rightarrow>
             throwApiError
               (''Invalid image type: '' @ file_name bad @ ''. Supported: JPEG, PNG, BMP, GIF'')
               400
         | None \<Rightarrow>
             (let formData =
                    map (\<lambda>i. (''images'', FFile i)) images
                    @ [(''name'', FStr (trim name))]
                    @ optional_trimmed ''person_id'' personId
                    @ optional_trimmed ''crime_type'' crimeType
                    @ [(''apply_augmentations'', FBool applyAugmentations)];
                  req = \<lparr>req_method = POST, url = ''/api/v1/enroll/images'', payload = formData\<rparr>
              in ([req], catchClause ''Failed to enroll images'' (send api req)))))"

text \<open>
  \<open>enrollBulk\<close>. \<open>lastIndexOf\<close> is \<open>None\<close> where the code gets \<open>-1\<close>, and
  \<open>substring(-1)\<close> is the whole string.
\<close>

fun lastIndexOf :: "char \<Rightarrow> string \<Rightarrow> nat option" where
  "lastIndexOf c [] = None"
| "lastIndexOf c (x # xs) =
     (case lastIndexOf c xs of
        Some i \<Rightarrow> Some (Suc i)
      | None \<Rightarrow> if x = c then Some 0 else None)"

definition enrollBulk :: "File option \<Rightarrow> string option \<Rightarrow> 'r apiClient \<Rightarrow> 'r accessed" where
  "enrollBulk excelFile imagesFolderPath api =
     (case excelFile of
        None \<Rightarrow> throwApiError ''Excel/CSV file is required'' 400
      | Some f \<Rightarrow>
          (let fileExtension =
                 drop (case lastIndexOf (CHR ''.'') (file_name f) of None \<Rightarrow> 0 | Some i \<Rightarrow> i)
                      (toLowerCase (file_name f))
           in if fileExtension \<notin> set [''.xlsx'', ''.xls'', ''.csv''] then
                throwApiError ''Invalid file type. Supported: .xlsx, .xls, .csv'' 400
              else
                (let formData =
                       [(''excel_file'', FFile f)]
                       @ optional_trimmed ''images_folder'' imagesFolderPath;
                     req = \<lparr>req_method = POST, url = ''/api/v1/enroll'', payload = formData\<rparr>
                 in ([req], catchClause ''Failed to enroll from Excel/CSV'' (send api req)))))"

text \<open>
  \<open>matchFaceFromUrl\<close>. The fields of the \<open>MatchRequest\<close> carry the prefix \<open>mr\<close>; the
  request itself is the JSON body, without the properties that are \<open>undefined\<close>.
\<close>

record MatchRequest =
  mr_image_url :: string
  mr_max_results :: "real option"
  mr_similarity_threshold :: "real option"
  mr_create_alert :: "bool option"
  mr_sender_id :: "string option"

definition startsWith :: "string \<Rightarrow> string \<Rightarrow> bool" where
  "startsWith s p = (take (length p) s = p)"

definition matchFaceFromUrl :: "MatchRequest \<Rightarrow> 'r apiClient \<Rightarrow> 'r accessed" where
  "matchFaceFromUrl request api =
     (if mr_image_url request = [] \<or> trim (mr_image_url request) = [] then
        throwApiError ''image_url is required'' 400
      else if \<not> startsWith (mr_image_url request) ''http://'' \<and>
              \<not> startsWith (mr_image_url request) ''https://'' then
        throwApiError ''image_url must be a valid HTTP/HTTPS URL'' 400
      else if (case mr_max_results request of None \<Rightarrow> False | Some n \<Rightarrow> n < 1 \<or> n > 100) then
        throwApiError ''max_results must be between 1 and 100'' 400
      else if (case mr_similarity_threshold request of
                 None \<Rightarrow> False
               | Some t \<Rightarrow> t < 0 \<or> t > 100) then
        throwApiError ''similarity_threshold must be between 0 and 100'' 400
      else
        (let body =
               [(''image_url'', FStr (mr_image_url request))]
               @ (case mr_max_results request of None \<Rightarrow> [] | Some n \<Rightarrow> [(''max_results'', FNum n)])
               @ (case mr_similarity_threshold request of
                    None \<Rightarrow> []
                  | Some t \<Rightarrow> [(''similarity_threshold'', FNum t)])
               @ (case mr_create_alert request of
                    None \<Rightarrow> []
                  | Some c \<Rightarrow> [(''create_alert'', FBool c)])
               @ text_field ''sender_id'' (mr_sender_id request);
             req = \<lparr>req_method = POST, url = ''/api/v1/match/url'', payload = body\<rparr>
         in ([req], catchClause ''Failed to match face from URL'' (send api req))))"

text \<open>
  \<open>getPresignedUrl\<close>. The fields of the \<open>ImageUrlRequest\<close> carry the prefix \<open>iu\<close>;
  \<open>provided v\<close> is the truthiness of an optional string.
\<close>

record ImageUrlRequest =
  iu_s3_key :: "string option"
  iu_image_url :: "string option"

definition provided :: "string option \<Rightarrow> bool" where
  "provided v = (case v of None \<Rightarrow> False | Some s \<Rightarrow> s \<noteq> [])"

definition getPresignedUrl :: "ImageUrlRequest \<Rightarrow> 'r apiClient \<Rightarrow> 'r accessed" where
  "getPresignedUrl request api =
     (let posted =
            (let body =
                   text_field ''s3_key'' (map_option trim (iu_s3_key request))
                   @ text_field ''image_url'' (map_option trim (iu_image_url request));
                 req = \<lparr>req_method = POST, url = ''/api/v1/images/presigned-url'',
                        payload = body\<rparr>
             in ([req], catchClause ''Failed to generate presigned URL'' (send api req)))
      in if \<not> provided (iu_s3_key request) \<and> \<not> provided (iu_image_url request) then
           throwApiError ''Either s3_key or image_url must be provided'' 400
         else if provided (iu_s3_key request) \<and> trim (the (iu_s3_key request)) = [] then
           throwApiError ''s3_key cannot be empty'' 400
         else if provided (iu_image_url request) then
           (let trimmedUrl = trim (the (iu_image_url request))
            in if trimmedUrl = [] then
                 throwApiError ''image_url cannot be empty'' 400
               else if \<not> startsWith trimmedUrl ''http://'' \<and>
                       \<not> startsWith trimmedUrl ''https://'' then
                 throwApiError ''image_url must be a valid HTTP/HTTPS URL'' 400
               else posted)
         else posted)"

text \<open>
  A property read \<open>v.k\<close> for a key \<open>k\<close> that only an object can have: on \<open>null\<close> and
  \<open>undefined\<close> it throws a \<open>TypeError\<close>, on any other value that lacks the key it is
  \<open>undefined\<close>.
\<close>

fun js_prop :: "string \<Rightarrow> jsval \<Rightarrow> thrown + jsval" where
  "js_prop k JUndefined = Inl (ThrownOther ''TypeError'')"
| "js_prop k JNull = Inl (ThrownOther ''TypeError'')"
| "js_prop k (JObj kvs) = Inr (case map_of kvs k of Some v \<Rightarrow> v | None \<Rightarrow> JUndefined)"
| "js_prop k v = Inr JUndefined"

text \<open>
  The two helpers over \<open>getPresignedUrl\<close>. They have no \<open>catch\<close> clause: what
  \<open>getPresignedUrl\<close> throws passes through, and so does the \<open>TypeError\<close> of
  \<open>response.presigned_url\<close> on a body that is \<open>null\<close>.
\<close>

definition getPresignedUrlFromS3Key ::
  "string \<Rightarrow> jsval apiClient \<Rightarrow> request list \<times> (thrown + jsval)" where
  "getPresignedUrlFromS3Key s3Key api =
     (if s3Key = [] \<or> trim s3Key = [] then
        ([], Inl (ThrownApiError (newApiError ''s3Key is required'' 400 None)))
      else
        (let (sent, r) = getPresignedUrl \<lparr>iu_s3_key = Some (trim s3Key), iu_image_url = None\<rparr> api
         in (sent,
             case r of
               Inl e \<Rightarrow> Inl (ThrownApiError e)
             | Inr resp \<Rightarrow> js_prop ''presigned_url'' resp)))"

definition getPresignedUrlFromImageUrl ::
  "string \<Rightarrow> jsval apiClient \<Rightarrow> request list \<times> (thrown + jsval)" where
  "getPresignedUrlFromImageUrl imageUrl api =
     (if imageUrl = [] \<or> trim imageUrl = [] then
        ([], Inl (ThrownApiError (newApiError ''imageUrl is required'' 400 None)))
      else
        (let (sent, r) =
               getPresignedUrl \<lparr>iu_s3_key = None, iu_image_url = Some (trim imageUrl)\<rparr> api
         in (sent,
             case r of
               Inl e \<Rightarrow> Inl (ThrownApiError e)
             | Inr resp \<Rightarrow> js_prop ''presigned_url'' resp)))"

text \<open>
  \<open>getUniqueStates\<close> and \<open>getDistrictsByState\<close>. Both fetch the criminals with
  \<open>{ limit: 1000 }\<close>; \<open>forEach\<close> exists on an array only, so any other payload throws
  a \<open>TypeError\<close> inside the \<open>try\<close>. \<open>statesOf\<close> and \<open>districtsOf\<close> are the two
  \<open>forEach\<close> loops; the \<open>Set\<close> turned into a sorted array is the sorted list without
  duplicates.
\<close>

fun statesOf :: "jsval list \<Rightarrow> thrown + string list" where
  "statesOf [] = Inr []"
| "statesOf (criminal # rest) =
     (case js_prop ''state'' criminal of
        Inl e \<Rightarrow> Inl e
      | Inr v \<Rightarrow>
          (case statesOf rest of
             Inl e \<Rightarrow> Inl e
           | Inr states \<Rightarrow>
               (case v of
                  JStr s \<Rightarrow> if s \<noteq> [] then Inr (s # states) else Inr states
                | _ \<Rightarrow> Inr states)))"

fun districtsOf :: "string \<Rightarrow> jsval list \<Rightarrow> thrown + string list" where
  "districtsOf state [] = Inr []"
| "districtsOf state (criminal # rest) =
     (case js_prop ''state'' criminal of
        Inl e \<Rightarrow> Inl e
      | Inr v \<Rightarrow>
          (case districtsOf state rest of
             Inl e \<Rightarrow> Inl e
           | Inr districts \<Rightarrow>
               if v = JStr state then
                 (case js_prop ''district'' criminal of
                    Inl e \<Rightarrow> Inl e
                  | Inr (JStr d) \<Rightarrow> if d \<noteq> [] then Inr (d # districts) else Inr districts
                  | Inr w \<Rightarrow> Inr districts)
               else Inr districts))"

definition limit1000 :: CriminalsQueryParams where
  "limit1000 =
     \<lparr>cq_limit = Some 1000, cq_offset = None, cq_search = None, cq_crime_type = None,
      cq_state = None, cq_district = None, cq_gender = None\<rparr>"

definition getUniqueStates :: "jsval apiClient \<Rightarrow> string list accessed" where
  "getUniqueStates api =
     (let (sent, r) = getCriminals (Some limit1000) api
      in (sent,
          catchClause ''Failed to retrieve states''
            (case r of
               Inl e \<Rightarrow> Inl (ThrownApiError e)
             | Inr (JArr criminals) \<Rightarrow>
                 (case statesOf criminals of
                    Inl e \<Rightarrow> Inl e
                  | Inr states \<Rightarrow> Inr (sort (remdups states)))
             | Inr v \<Rightarrow> Inl (ThrownOther ''TypeError''))))"

definition getDistrictsByState :: "string \<Rightarrow> jsval apiClient \<Rightarrow> string list accessed" where
  "getDistrictsByState state api =
     (if state = [] \<or> trim state = [] then ([], Inr [])
      else
        (let (sent, r) = getCriminals (Some limit1000) api
         in (sent,
             catchClause ''Failed to retrieve districts''
               (case r of
                  Inl e \<Rightarrow> Inl (ThrownApiError e)
                | Inr (JArr criminals) \<Rightarrow>
                    (case districtsOf state criminals of
                       Inl e \<Rightarrow> Inl e
                     | Inr districts \<Rightarrow> Inr (sort (remdups districts)))
                | Inr v \<Rightarrow> Inl (ThrownOther ''TypeError'')))))"

section \<open>The upload card\<close>

definition VALID_IMAGE_TYPES :: "string list" where
  "VALID_IMAGE_TYPES =
     [''image/jpeg'', ''image/jpg'', ''image/png'', ''image/bmp'', ''image/gif'', ''image/webp'']"

definition isValidImageType :: "File \<Rightarrow> bool" where
  "isValidImageType file = (toLowerCase (file_type file) \<in> set VALID_IMAGE_TYPES)"

text \<open>
  The error the card shows. The message about the size interpolates two formatted
  numbers; it is kept as the two numbers (the limit in MB and the size in bytes).
\<close>

datatype card_error = Message string | FileTooLarge nat nat

text \<open>
  \<open>validateFile\<close>: its result and the error state it leaves
  (\<open>setError(null)\<close> first, then at most one \<open>setError\<close>).
\<close>

definition validateFile :: "nat \<Rightarrow> File \<Rightarrow> bool \<times> card_error option" where
  "validateFile maxSizeMB file =
     (if \<not> isValidImageType file then
        (False, Some (Message
           ''Invalid file type. Please select a JPEG, PNG, BMP, GIF, or WebP image.''))
      else if file_size file > maxSizeMB * 1024 * 1024 then
        (False, Some (FileTooLarge maxSizeMB (file_size file)))
      else if file_size file = 0 then
        (False, Some (Message ''File is empty. Please select a valid image file.''))
      else (True, None))"

text \<open>
  \<open>handleFile\<close>: the file it passes to \<open>onFileSelect\<close> (\<open>None\<close> when it does not
  call it) and the error state it leaves.
\<close>

definition handleFile :: "bool \<Rightarrow> nat \<Rightarrow> File \<Rightarrow> File option \<times> card_error option" where
  "handleFile disabled maxSizeMB file =
     (if disabled then (None, Some (Message ''Upload is disabled''))
      else
        (case validateFile maxSizeMB file of
           (True, e) \<Rightarrow> (Some file, None)
         | (False, e) \<Rightarrow> (None, e)))"

section \<open>The enrollment page\<close>

text \<open>
  The match types of the API. A \<open>MatchResult\<close> keeps the fields the guard reads
  (\<open>name\<close> is \<open>match_name\<close> here); \<open>matches\<close> is \<open>None\<close> when the body has no
  such property, which the guard tests.
\<close>

record MatchResult =
  person_id :: string
  match_name :: string
  confidence :: real

record MatchResponse =
  query_image_url :: string
  matches :: "MatchResult list option"
  total_matches :: nat

record Toast =
  title :: string
  description :: string
  variant :: string

text \<open>
  The state of \<open>UploadPage\<close>: its \<open>useState\<close> cells (\<open>file\<close> is \<open>selectedFile\<close>
  and \<open>name\<close> is \<open>form_name\<close> here), and the lines \<open>console.warn\<close> has written.
\<close>

record UploadPage =
  selectedFile :: "File option"
  form_name :: string
  personId :: string
  crimeType :: string
  gender :: string
  state :: string
  district :: string
  ageRange :: string
  applyAugmentations :: bool
  loading :: bool
  toasts :: "Toast list"
  existingMatch :: "MatchResult option"
  checkingMatch :: bool
  console :: "(string \<times> ApiError) list"

text \<open>
  \<open>checkExistingPerson\<close>, from its first line to the end of its \<open>finally\<close>: the
  requests issued and the state once the probe has settled.
\<close>

definition checkExistingPerson ::
  "File \<Rightarrow> MatchResponse apiClient \<Rightarrow> UploadPage \<Rightarrow> request list \<times> UploadPage" where
  "checkExistingPerson f api page =
     (let page1 = page\<lparr>checkingMatch := True, existingMatch := None\<rparr>;
          (sent, r) = matchFace (Some f) 1 80 False None api;
          page2 =
            (case r of
               Inr matchResult \<Rightarrow>
                 (case matches matchResult of
                    Some (topMatch # rest) \<Rightarrow>
                      if confidence topMatch \<ge> 80 then page1\<lparr>existingMatch := Some topMatch\<rparr>
                      else page1
                  | _ \<Rightarrow> page1)
             | Inl error \<Rightarrow>
                 page1\<lparr>console :=
                   console page1 @ [(''Failed to check for existing person:'', error)]\<rparr>)
      in (sent, page2\<lparr>checkingMatch := False\<rparr>))"

text \<open>The effect that runs when the cell \<open>file\<close> has changed.\<close>

definition fileEffect :: "MatchResponse apiClient \<Rightarrow> UploadPage \<Rightarrow> request list \<times> UploadPage" where
  "fileEffect api page =
     (case selectedFile page of
        Some f \<Rightarrow> checkExistingPerson f api page
      | None \<Rightarrow> ([], page\<lparr>existingMatch := None\<rparr>))"

text \<open>
  The card calls \<open>onFileSelect\<close>, which is \<open>setFile\<close>; the effect follows.
\<close>

definition selectFile ::
  "File \<Rightarrow> MatchResponse apiClient \<Rightarrow> UploadPage \<Rightarrow> request list \<times> UploadPage" where
  "selectFile f api page = fileEffect api (page\<lparr>selectedFile := Some f\<rparr>)"

text \<open>
  What the page renders from its state: the modal \<open>ExistingPersonModal\<close>, whose title
  is "Person Already Exists" (\<open>existingMatch && ...\<close>); the \<open>disabled\<close> flag of the
  submit button; the \<open>disabled\<close> flag it passes to the upload card.
\<close>

definition modalShown :: "UploadPage \<Rightarrow> bool" where
  "modalShown page = (existingMatch page \<noteq> None)"

definition submitDisabled :: "UploadPage \<Rightarrow> bool" where
  "submitDisabled page =
     (loading page \<or> selectedFile page = None \<or> form_name page = [] \<or> state page = [] \<or>
      district page = [] \<or> ageRange page = [] \<or> crimeType page = [])"

definition cardDisabled :: "UploadPage \<Rightarrow> bool" where
  "cardDisabled page = checkingMatch page"

section \<open>The alerts table\<close>

text \<open>
  An alert as the table reads it; \<open>status\<close> is \<open>alert_status\<close> here and is the string
  the backend sent.
\<close>

record AlertResponse =
  alert_id :: string
  alert_matches :: "MatchResult list"
  sender_id :: "string option"
  alert_status :: string
  alert_created_at :: string

text \<open>
  A button of the actions cell: its label, what its \<open>onClick\<close> calls, and its
  \<open>disabled\<close> flag.
\<close>

datatype click = HandleView AlertResponse | HandleStatusUpdate string string

record ActionButton =
  label :: string
  onClick :: click
  disabled :: bool

text \<open>
  The actions cell of one row of \<open>AlertsTable\<close>; \<open>onView\<close> says whether the prop is
  passed, \<open>updating\<close> is the state cell of the table.
\<close>

definition rowActions :: "bool \<Rightarrow> string option \<Rightarrow> AlertResponse \<Rightarrow> ActionButton list" where
  "rowActions onView updating alert =
     (let isUpdating = (updating = Some (alert_id alert))
      in (if onView then
            [\<lparr>label = ''View'', onClick = HandleView alert, disabled = isUpdating\<rparr>]
          else [])
         @ (if alert_status alert = ''Pending'' then
              [\<lparr>label = ''Verify'',
                onClick = HandleStatusUpdate (alert_id alert) ''Verified'',
                disabled = isUpdating\<rparr>,
               \<lparr>label = ''Reject'',
                onClick = HandleStatusUpdate (alert_id alert) ''Rejected'',
                disabled = isUpdating\<rparr>]
            else []))"

text \<open>The status a button asks for, if it changes the status.\<close>

fun requestedStatus :: "ActionButton \<Rightarrow> string option" where
  "requestedStatus b =
     (case onClick b of HandleStatusUpdate i s \<Rightarrow> Some s | HandleView a \<Rightarrow> None)"

definition statusButtons :: "ActionButton list \<Rightarrow> ActionButton list" where
  "statusButtons bs = filter (\<lambda>b. requestedStatus b \<noteq> None) bs"

text \<open>
  \<open>handleStatusUpdate\<close>: the requests issued, the table's state cells afterwards
  (\<open>updating\<close>, \<open>error\<close>), and whether \<open>onStatusUpdate\<close> was called. The accessor
  throws nothing but an \<open>ApiError\<close>, so the message shown is the error's.
\<close>

record TableState =
  updating_cell :: "string option"
  error_cell :: "string option"

definition handleStatusUpdate ::
  "string \<Rightarrow> string \<Rightarrow> jsval apiClient \<Rightarrow> TableState \<Rightarrow> request list \<times> TableState \<times> bool" where
  "handleStatusUpdate alertId status api tbl =
     (if alertId = [] \<or> status = [] then
        ([], tbl\<lparr>error_cell := Some ''Alert ID and status are required''\<rparr>, False)
      else
        (let tbl1 = tbl\<lparr>updating_cell := Some alertId, error_cell := None\<rparr>;
             (sent, r) = updateAlertStatus alertId status api
         in (case r of
               Inr v \<Rightarrow> (sent, tbl1\<lparr>updating_cell := None\<rparr>, True)
             | Inl err \<Rightarrow>
                 (sent, tbl1\<lparr>error_cell := Some (message err), updating_cell := None\<rparr>, False))))"

section \<open>The alerts page\<close>

text \<open>
  The badge of a status. \<open>STATUS_CONFIG\<close> keeps the label of each entry; a status
  without an entry makes \<open>config.icon\<close> throw, and with it the render of the table.
\<close>

definition STATUS_CONFIG :: "(string \<times> string) list" where
  "STATUS_CONFIG =
     [(''Pending'', ''Pending''), (''Verified'', ''Verified''), (''Rejected'', ''Rejected'')]"

definition getStatusBadge :: "string \<Rightarrow> thrown + string" where
  "getStatusBadge status =
     (case map_of STATUS_CONFIG status of
        Some badge \<Rightarrow> Inr badge
      | None \<Rightarrow> Inl (ThrownOther ''TypeError''))"

text \<open>
  The body of \<open>AlertsTable\<close>: one row per alert, each with its alert and its actions
  cell; no row for an empty list.
\<close>

fun tableRows ::
  "bool \<Rightarrow> string option \<Rightarrow> AlertResponse list \<Rightarrow> thrown + (AlertResponse \<times> ActionButton list) list" where
  "tableRows onView updating [] = Inr []"
| "tableRows onView updating (alert # rest) =
     (case getStatusBadge (alert_status alert) of
        Inl e \<Rightarrow> Inl e
      | Inr badge \<Rightarrow>
          (case tableRows onView updating rest of
             Inl e \<Rightarrow> Inl e
           | Inr rows \<Rightarrow> Inr ((alert, rowActions onView updating alert) # rows)))"

text \<open>
  The payload of the alerts list read at its declared type \<open>AlertResponse[]\<close>, as the
  cast of the accessor has it: a string field by \<open>str_prop\<close> (an empty \<open>sender_id\<close>
  is read as a missing one, the table only tests it), and the empty list for a payload
  that is not an array. \<open>alertsOf data\<close> is \<open>data || []\<close> at that type.
\<close>

definition readMatch :: "jsval \<Rightarrow> MatchResult" where
  "readMatch v =
     \<lparr>person_id = str_prop ''person_id'' v,
      match_name = str_prop ''name'' v,
      confidence = (case js_prop ''confidence'' v of Inr (JNum r) \<Rightarrow> r | _ \<Rightarrow> 0)\<rparr>"

definition readAlert :: "jsval \<Rightarrow> AlertResponse" where
  "readAlert v =
     \<lparr>alert_id = str_prop ''alert_id'' v,
      alert_matches = (case js_prop ''matches'' v of Inr (JArr ms) \<Rightarrow> map readMatch ms | _ \<Rightarrow> []),
      sender_id = (if str_prop ''sender_id'' v = [] then None else Some (str_prop ''sender_id'' v)),
      alert_status = str_prop ''status'' v,
      alert_created_at = str_prop ''created_at'' v\<rparr>"

definition alertsOf :: "jsval \<Rightarrow> AlertResponse list" where
  "alertsOf data =
     (if truthy data then (case data of JArr xs \<Rightarrow> map readAlert xs | _ \<Rightarrow> []) else [])"

text \<open>\<open>s.includes(sub)\<close>.\<close>

fun str_includes :: "string \<Rightarrow> string \<Rightarrow> bool" where
  "str_includes [] sub = (sub = [])"
| "str_includes (c # cs) sub = (startsWith (c # cs) sub \<or> str_includes cs sub)"

text \<open>
  The state of \<open>AlertsPage\<close>: its \<open>useState\<close> cells (\<open>loading\<close> is
  \<open>alerts_loading\<close> here).
\<close>

record AlertsPage =
  alerts :: "AlertResponse list"
  alerts_loading :: bool
  statusFilter :: "string option"
  selectedAlert :: "AlertResponse option"
  connectionError :: "string option"

text \<open>
  \<open>fetchAlerts\<close>, from its first line to the end of its \<open>finally\<close>: the requests
  issued and the state afterwards. Every error the accessor throws is an \<open>Error\<close>.
  When the fetch fails, the list is kept ("don't clear them").
\<close>

definition fetchAlerts :: "jsval apiClient \<Rightarrow> AlertsPage \<Rightarrow> request list \<times> AlertsPage" where
  "fetchAlerts api page =
     (let page1 = page\<lparr>alerts_loading := True, connectionError := None\<rparr>;
          (sent, r) =
            getAlerts (Some \<lparr>aq_status = statusFilter page, aq_limit = Some 100,
                             aq_offset = Some 0\<rparr>) api;
          page2 =
            (case r of
               Inr data \<Rightarrow> page1\<lparr>alerts := alertsOf data, connectionError := None\<rparr>
             | Inl error \<Rightarrow>
                 (let page3 =
                        (if str_includes (message error) ''Network error'' \<or>
                            str_includes (message error) ''Unable to reach''
                         then page1\<lparr>connectionError := Some (message error)\<rparr>
                         else page1)
                  in if alerts page = [] then page3\<lparr>alerts := []\<rparr> else page3))
      in (sent, page2\<lparr>alerts_loading := False\<rparr>))"

text \<open>
  A click on a status button of the table as the page mounts it, with
  \<open>onStatusUpdate={fetchAlerts}\<close>: \<open>handleStatusUpdate\<close>, and \<open>fetchAlerts\<close> when
  the handler calls \<open>onStatusUpdate\<close>.
\<close>

definition clickStatusButton ::
  "string \<Rightarrow> string \<Rightarrow> jsval apiClient \<Rightarrow> AlertsPage \<times> TableState \<Rightarrow>
   request list \<times> (AlertsPage \<times> TableState)" where
  "clickStatusButton alertId status api st =
     (let (sent, tbl, called) = handleStatusUpdate alertId status api (snd st)
      in if called then
           (let (sent2, page) = fetchAlerts api (fst st) in (sent @ sent2, (page, tbl)))
         else (sent, (fst st, tbl)))"

text \<open>
  What the page shows of the table: nothing while an alert is selected or the list is
  loading, otherwise the table with \<open>onView\<close> passed.
\<close>

definition pageTable ::
  "AlertsPage \<times> TableState \<Rightarrow> thrown + (AlertResponse \<times> ActionButton list) list" where
  "pageTable st =
     (if selectedAlert (fst st) \<noteq> None \<or> alerts_loading (fst st) then Inr []
      else tableRows True (updating_cell (snd st)) (alerts (fst st)))"

text \<open>
  An alerts page that lists one pending alert, with a freshly mounted table; the body
  the backend answers a status update of that alert to \<open>Verified\<close> with; a client whose
  backend accepts status updates and then serves the updated list; and a client whose
  backend accepts status updates but cannot be reached for the list.
\<close>

definition pending_alert :: AlertResponse where
  "pending_alert =
     \<lparr>alert_id = ''a1'', alert_matches = [], sender_id = None, alert_status = ''Pending'',
      alert_created_at = ''2024-03-15T10:00:00Z''\<rparr>"

definition one_pending :: "AlertsPage \<times> TableState" where
  "one_pending =
     (\<lparr>alerts = [pending_alert], alerts_loading = False, statusFilter = None,
       selectedAlert = None, connectionError = None\<rparr>,
      \<lparr>updating_cell = None, error_cell = None\<rparr>)"

definition verified_body :: jsval where
  "verified_body =
     JObj [(''alert_id'', JStr ''a1''), (''query_image_url'', JStr ''https://img.example/q''),
           (''matches'', JArr []), (''status'', JStr ''Verified''),
           (''created_at'', JStr ''2024-03-15T10:00:00Z'')]"

definition refreshing_api :: "jsval apiClient" where
  "refreshing_api =
     \<lparr>baseURL = ''https://api.example/'',
      transport = \<lambda>req. if req_method req = PUT then Inr verified_body
                        else Inr (JObj [(''data'', JArr [verified_body]), (''count'', JNum 1)])\<rparr>"

definition list_down_api :: "jsval apiClient" where
  "list_down_api =
     \<lparr>baseURL = ''https://api.example/'',
      transport = \<lambda>req. if req_method req = PUT then Inr verified_body
                        else Inl \<lparr>err_response = None, err_request = True,
                                  err_message = ''Network Error''\<rparr>\<rparr>"

section \<open>The error discipline of an accessor\<close>

text \<open>
  What a call of an accessor may do, given the messages of its validation errors and
  the messages of the \<open>catch\<close> clauses it runs through. Either it issued no request
  and threw an \<open>ApiError\<close> of code 400 with one of the validation messages and no
  response; or it issued one request, and then: if the transport rejected it, it threw
  exactly the \<open>ApiError\<close> the interceptor made from the rejection; if the transport
  resolved, it returned a value or threw an \<open>ApiError\<close> of code 500 with one of the
  messages of the \<open>catch\<close> clauses.
\<close>

definition errorDiscipline :: "string list \<Rightarrow> string list \<Rightarrow> 'r apiClient \<Rightarrow> 'a accessed \<Rightarrow> bool" where
  "errorDiscipline validationMessages failureMessages api r =
     (case fst r of
        [] \<Rightarrow>
          (\<exists>msg \<in> set validationMessages.
             snd r = Inl \<lparr>message = msg, statusCode = Some 400, response = None\<rparr>)
      | [req] \<Rightarrow>
          (case transport api req of
             Inl err \<Rightarrow> snd r = Inl (responseRejected (baseURL api) err)
           | Inr data \<Rightarrow>
               (case snd r of
                  Inr v \<Rightarrow> True
                | Inl e \<Rightarrow>
                    (\<exists>msg \<in> set failureMessages.
                       e = \<lparr>message = msg, statusCode = Some 500, response = None\<rparr>)))
      | _ \<Rightarrow> False)"

text \<open>
  The same for the two helpers over \<open>getPresignedUrl\<close>, which have no \<open>catch\<close>
  clause: on a resolved request they return a value, or let the \<open>TypeError\<close> of the
  property read on a body without properties escape.
\<close>

definition helperDiscipline ::
  "string list \<Rightarrow> jsval apiClient \<Rightarrow> request list \<times> (thrown + jsval) \<Rightarrow> bool" where
  "helperDiscipline validationMessages api r =
     (case fst r of
        [] \<Rightarrow>
          (\<exists>msg \<in> set validationMessages.
             snd r = Inl (ThrownApiError
                       \<lparr>message = msg, statusCode = Some 400, response = None\<rparr>))
      | [req] \<Rightarrow>
          (case transport api req of
             Inl err \<Rightarrow> snd r = Inl (ThrownApiError (responseRejected (baseURL api) err))
           | Inr data \<Rightarrow>
               (case snd r of
                  Inr v \<Rightarrow> True
                | Inl t \<Rightarrow> t = ThrownOther ''TypeError'' \<and> (data = JNull \<or> data = JUndefined)))
      | _ \<Rightarrow> False)"

text \<open>A client whose backend answers every request with status 503.\<close>

definition down_api :: "jsval apiClient" where
  "down_api =
     \<lparr>baseURL = ''https://api.example/'',
      transport = \<lambda>req. Inl \<lparr>err_response = Some (503, JObj [(''detail'', JStr ''down'')]),
                               err_request = True, err_message = ''Request failed''\<rparr>\<rparr>"


section \<open>Complaints: the records of the data store\<close>

text \<open>
  The interface \<open>Complaint\<close> of the shared types. The field \<open>id\<close> is called
  \<open>complaint_id\<close> here, since \<open>id\<close> is the identity function of HOL.
\<close>

record Complaint =
  complaint_id :: string
  created_at :: string
  complaint_type :: string
  status :: string

section \<open>Complaint triage: the three tabs\<close>

text \<open>
  \<open>getFilteredComplaints\<close> of the complaints page. The page keeps the fetched list in
  its state; here it is the second argument. The first argument is the tab: the code
  compares it with \<open>'pending'\<close>, then with \<open>'open'\<close>, and every other string falls
  into the last branch.
\<close>

definition getFilteredComplaints :: "string \<Rightarrow> Complaint list \<Rightarrow> Complaint list" where
  "getFilteredComplaints tab complaints =
     (if tab = ''pending'' then
        filter (\<lambda>c. status c = ''Pending'' \<or> status c = ''pending'' \<or>
                    status c = ''submitted'' \<or> status c = ''Submitted'') complaints
      else if tab = ''open'' then
        filter (\<lambda>c. status c = ''Open'' \<or> status c = ''open'') complaints
      else
        filter (\<lambda>c. status c = ''Closed'' \<or> status c = ''Resolved'' \<or>
                    status c = ''closed'' \<or> status c = ''resolved'') complaints)"

section \<open>Analytics: the summary counts\<close>

text \<open>
  The second step of \<open>fetchAnalytics\<close>: the two filters over the fetched complaints
  and the counts that go into the \<open>Stats\<close> of the page.
\<close>

definition openComplaints :: "Complaint list \<Rightarrow> nat" where
  "openComplaints allComplaints =
     length (filter (\<lambda>c. status c \<noteq> ''Resolved'' \<and> status c \<noteq> ''Closed'' \<and>
                          status c \<noteq> ''closed'' \<and> status c \<noteq> ''resolved'') allComplaints)"

definition closedComplaints :: "Complaint list \<Rightarrow> nat" where
  "closedComplaints allComplaints =
     length (filter (\<lambda>c. status c = ''Resolved'' \<or> status c = ''Closed'' \<or>
                          status c = ''closed'' \<or> status c = ''resolved'') allComplaints)"

definition totalComplaints :: "Complaint list \<Rightarrow> nat" where
  "totalComplaints allComplaints = length allComplaints"

section \<open>Analytics: the monthly trend\<close>

record RTIRequest =
  rti_id :: string
  rti_created_at :: string
  rti_status :: string

record MonthlyData =
  name :: string
  complaints :: nat
  rti :: nat

text \<open>
  A \<open>Date\<close> as the trend reads it: invalid, or a year and a month index (0 to 11) in
  local time. \<open>newDate y m\<close> is \<open>new Date(y, m, 1)\<close>, which carries a month outside
  0 to 11 over into the year.
\<close>

datatype jsdate = InvalidDate | LocalDate int nat

definition newDate :: "int \<Rightarrow> int \<Rightarrow> jsdate" where
  "newDate y m = LocalDate (y + m div 12) (nat (m mod 12))"

text \<open>
  \<open>d.toLocaleString('default', { month: 'short' })\<close>. The names of the twelve months
  belong to the locale of the browser: they are the parameter \<open>loc\<close>. An invalid date
  prints as \<open>Invalid Date\<close>.
\<close>

fun monthShort :: "(nat \<Rightarrow> string) \<Rightarrow> jsdate \<Rightarrow> string" where
  "monthShort loc InvalidDate = ''Invalid Date''"
| "monthShort loc (LocalDate y m) = loc m"

text \<open>
  The object \<open>months\<close>: its own properties in insertion order, which is the order
  of \<open>Object.values\<close> for keys that are not array indices. \<open>obj_set\<close> is the
  assignment \<open>months[key] = v\<close>, which keeps the place of a key that is already there.
\<close>

fun obj_set :: "(string \<times> 'v) list \<Rightarrow> string \<Rightarrow> 'v \<Rightarrow> (string \<times> 'v) list" where
  "obj_set [] k v = [(k, v)]"
| "obj_set ((k', v') # kvs) k v =
     (if k' = k then (k, v) # kvs else (k', v') # obj_set kvs k v)"

text \<open>The first loop: \<open>for (let i = 5; i >= 0; i--)\<close>.\<close>

definition initMonths :: "(nat \<Rightarrow> string) \<Rightarrow> int \<Rightarrow> nat \<Rightarrow> (string \<times> MonthlyData) list" where
  "initMonths loc nowYear nowMonth =
     foldl (\<lambda>months i.
              (let d = newDate nowYear (int nowMonth - int i);
                   key = monthShort loc d
               in obj_set months key \<lparr>name = key, complaints = 0, rti = 0\<rparr>))
           [] [5, 4, 3, 2, 1, 0]"

text \<open>\<open>if (months[key]) months[key].complaints++\<close> and the same for \<open>rti\<close>.\<close>

definition countComplaint :: "(string \<times> MonthlyData) list \<Rightarrow> string \<Rightarrow> (string \<times> MonthlyData) list" where
  "countComplaint months key =
     (case map_of months key of
        Some b \<Rightarrow> obj_set months key (b\<lparr>complaints := complaints b + 1\<rparr>)
      | None \<Rightarrow> months)"

definition countRTI :: "(string \<times> MonthlyData) list \<Rightarrow> string \<Rightarrow> (string \<times> MonthlyData) list" where
  "countRTI months key =
     (case map_of months key of
        Some b \<Rightarrow> obj_set months key (b\<lparr>rti := rti b + 1\<rparr>)
      | None \<Rightarrow> months)"

text \<open>
  The third step of \<open>fetchAnalytics\<close>, up to \<open>Object.values(months)\<close>. \<open>parseDate\<close>
  is \<open>new Date(s)\<close> on a string, which belongs to the runtime and its time zone;
  \<open>nowYear\<close> and \<open>nowMonth\<close> are \<open>now.getFullYear()\<close> and \<open>now.getMonth()\<close>.
\<close>

definition monthlyTrend ::
  "(nat \<Rightarrow> string) \<Rightarrow> (string \<Rightarrow> jsdate) \<Rightarrow> int \<Rightarrow> nat \<Rightarrow> Complaint list \<Rightarrow> RTIRequest list \<Rightarrow>
   MonthlyData list" where
  "monthlyTrend loc parseDate nowYear nowMonth allComplaints allRTIs =
     (let months0 = initMonths loc nowYear nowMonth;
          months1 = foldl (\<lambda>months c. countComplaint months (monthShort loc (parseDate (created_at c))))
                      months0 allComplaints;
          months2 = foldl (\<lambda>months r. countRTI months (monthShort loc (parseDate (rti_created_at r))))
                      months1 allRTIs
      in map snd months2)"

text \<open>The short month names of the locale \<open>en-US\<close>.\<close>

definition en_US :: "nat \<Rightarrow> string" where
  "en_US m =
     (if m < 12 then
        [''Jan'', ''Feb'', ''Mar'', ''Apr'', ''May'', ''Jun'',
         ''Jul'', ''Aug'', ''Sep'', ''Oct'', ''Nov'', ''Dec''] ! m
      else [])"

section \<open>Properties of the enrollment page, the accessors and the alerts table\<close>

lemma probe_sent:
  "fst (checkExistingPerson f api page) =
     [\<lparr>req_method = POST, url = ''/api/v1/match'',
       payload = [(''image'', FFile f), (''max_results'', FNum 1),
                  (''similarity_threshold'', FNum 80), (''create_alert'', FBool False)]\<rparr>]"
  by (simp add: checkExistingPerson_def matchFace_def Let_def split_def)

lemma probe_fulfilled:
  "snd (checkExistingPerson f \<lparr>baseURL = b, transport = \<lambda>req. Inr resp\<rparr> page) =
     page\<lparr>checkingMatch := False,
          existingMatch :=
            (case matches resp of
               Some (topMatch # rest) \<Rightarrow> if confidence topMatch \<ge> 80 then Some topMatch else None
             | _ \<Rightarrow> None)\<rparr>"
  by (simp add: checkExistingPerson_def matchFace_def Let_def split_def send_def catchClause_def
           split: option.splits list.splits)

lemma probe_rejected:
  "snd (checkExistingPerson f \<lparr>baseURL = b, transport = \<lambda>req. Inl err\<rparr> page) =
     page\<lparr>checkingMatch := False, existingMatch := None,
          console := console page @
            [(''Failed to check for existing person:'', responseRejected b err)]\<rparr>"
  by (simp add: checkExistingPerson_def matchFace_def Let_def split_def send_def catchClause_def)

text \<open>
  C1. Once the probe has answered, the modal "Person Already Exists" is shown exactly
  when the answer has a non-empty list of matches whose first entry has a confidence of
  at least 80. A top match of confidence exactly 80 shows the modal; one of 79.9 does
  not.
\<close>

theorem duplicate_guard_modal:
  "modalShown (snd (selectFile f \<lparr>baseURL = b, transport = \<lambda>req. Inr resp\<rparr> page))
     = (\<exists>topMatch rest. matches resp = Some (topMatch # rest) \<and> confidence topMatch \<ge> 80)
   \<and> modalShown (snd (selectFile f
         \<lparr>baseURL = b,
          transport = \<lambda>req. Inr (resp\<lparr>matches := Some (m\<lparr>confidence := 80\<rparr> # ms)\<rparr>)\<rparr> page))
   \<and> \<not> modalShown (snd (selectFile f
         \<lparr>baseURL = b,
          transport = \<lambda>req. Inr (resp\<lparr>matches := Some (m\<lparr>confidence := 79.9\<rparr> # ms)\<rparr>)\<rparr> page))"
  by (auto simp: modalShown_def selectFile_def fileEffect_def probe_fulfilled
           split: option.splits list.splits)

text \<open>
  C2. Selecting a file issues exactly one request, the one \<open>matchFace\<close> builds for
  \<open>maxResults = 1\<close>, \<open>similarityThreshold = 80\<close>, \<open>createAlert = false\<close> and no
  sender. When the client rejects that request, whatever the error, the page only gains
  one \<open>console.warn\<close> line: the file stays selected, no modal is shown, no toast is
  added, the upload card is enabled again, and the submit button depends on the form
  fields alone.
\<close>

theorem probe_parameters_and_fail_open:
  "fst (selectFile f api page) =
     [\<lparr>req_method = POST, url = ''/api/v1/match'',
       payload = [(''image'', FFile f), (''max_results'', FNum 1),
                  (''similarity_threshold'', FNum 80), (''create_alert'', FBool False)]\<rparr>]
   \<and> fst (selectFile f api page) = fst (matchFace (Some f) 1 80 False None api)
   \<and> snd (selectFile f \<lparr>baseURL = b, transport = \<lambda>req. Inl err\<rparr> page) =
       page\<lparr>selectedFile := Some f, existingMatch := None, checkingMatch := False,
            console := console page @
              [(''Failed to check for existing person:'', responseRejected b err)]\<rparr>
   \<and> selectedFile (snd (selectFile f \<lparr>baseURL = b, transport = \<lambda>req. Inl err\<rparr> page)) = Some f
   \<and> \<not> modalShown (snd (selectFile f \<lparr>baseURL = b, transport = \<lambda>req. Inl err\<rparr> page))
   \<and> toasts (snd (selectFile f \<lparr>baseURL = b, transport = \<lambda>req. Inl err\<rparr> page)) = toasts page
   \<and> \<not> cardDisabled (snd (selectFile f \<lparr>baseURL = b, transport = \<lambda>req. Inl err\<rparr> page))
   \<and> submitDisabled (snd (selectFile f \<lparr>baseURL = b, transport = \<lambda>req. Inl err\<rparr> page))
       = (loading page \<or> form_name page = [] \<or> state page = [] \<or> district page = [] \<or>
          ageRange page = [] \<or> crimeType page = [])"
proof -
  have sent: "fst (selectFile f api page) =
     [\<lparr>req_method = POST, url = ''/api/v1/match'',
       payload = [(''image'', FFile f), (''max_results'', FNum 1),
                  (''similarity_threshold'', FNum 80), (''create_alert'', FBool False)]\<rparr>]"
    by (simp add: selectFile_def fileEffect_def probe_sent)
  have call: "fst (selectFile f api page) = fst (matchFace (Some f) 1 80 False None api)"
    by (simp add: selectFile_def fileEffect_def checkExistingPerson_def Let_def split_def)
  have after: "snd (selectFile f \<lparr>baseURL = b, transport = \<lambda>req. Inl err\<rparr> page) =
       page\<lparr>selectedFile := Some f, existingMatch := None, checkingMatch := False,
            console := console page @
              [(''Failed to check for existing person:'', responseRejected b err)]\<rparr>"
    by (simp add: selectFile_def fileEffect_def probe_rejected)
  show ?thesis
    unfolding after using sent call
    by (simp add: modalShown_def cardDisabled_def submitDisabled_def)
qed

text \<open>
  C8. \<open>matchFace\<close> with \<open>maxResults\<close> 0 or 101 throws the \<open>ApiError\<close> of code 400
  about \<open>maxResults\<close> and issues no request. With \<open>maxResults\<close> 1 or 100 that check
  passes: the request is issued exactly when the similarity threshold is within 0 to
  100, and the only validation error left is the one about the threshold.
\<close>

theorem matchFace_maxResults_bounds:
  "matchFace (Some img) 0 threshold createAlert senderId api =
     ([], Inl \<lparr>message = ''maxResults must be between 1 and 100'', statusCode = Some 400,
               response = None\<rparr>)
   \<and> matchFace (Some img) 101 threshold createAlert senderId api =
     ([], Inl \<lparr>message = ''maxResults must be between 1 and 100'', statusCode = Some 400,
               response = None\<rparr>)
   \<and> (fst (matchFace (Some img) 1 threshold createAlert senderId api) \<noteq> [])
       = (0 \<le> threshold \<and> threshold \<le> 100)
   \<and> (fst (matchFace (Some img) 100 threshold createAlert senderId api) \<noteq> [])
       = (0 \<le> threshold \<and> threshold \<le> 100)
   \<and> snd (matchFace (Some img) 1 threshold createAlert senderId api) =
       (if threshold < 0 \<or> threshold > 100 then
          Inl \<lparr>message = ''similarityThreshold must be between 0 and 100'',
               statusCode = Some 400, response = None\<rparr>
        else
          catchClause ''Failed to match face''
            (send api \<lparr>req_method = POST, url = ''/api/v1/match'',
               payload = [(''image'', FFile img), (''max_results'', FNum 1),
                          (''similarity_threshold'', FNum threshold),
                          (''create_alert'', FBool createAlert)]
                         @ (case senderId of
                              None \<Rightarrow> []
                            | Some s \<Rightarrow> if s \<noteq> [] then [(''sender_id'', FStr s)] else [])\<rparr>))
   \<and> snd (matchFace (Some img) 100 threshold createAlert senderId api) =
       (if threshold < 0 \<or> threshold > 100 then
          Inl \<lparr>message = ''similarityThreshold must be between 0 and 100'',
               statusCode = Some 400, response = None\<rparr>
        else
          catchClause ''Failed to match face''
            (send api \<lparr>req_method = POST, url = ''/api/v1/match'',
               payload = [(''image'', FFile img), (''max_results'', FNum 100),
                          (''similarity_threshold'', FNum threshold),
                          (''create_alert'', FBool createAlert)]
                         @ (case senderId of
                              None \<Rightarrow> []
                            | Some s \<Rightarrow> if s \<noteq> [] then [(''sender_id'', FStr s)] else [])\<rparr>))"
  by (auto simp: matchFace_def throwApiError_def newApiError_def Let_def)

lemma handleStatusUpdate_outcome:
  "snd (handleStatusUpdate alertId newStatus api tbl) =
     (if alertId = [] \<or> newStatus = [] then
        (tbl\<lparr>error_cell := Some ''Alert ID and status are required''\<rparr>, False)
      else
        (case snd (updateAlertStatus alertId newStatus api) of
           Inr v \<Rightarrow> (tbl\<lparr>updating_cell := None, error_cell := None\<rparr>, True)
         | Inl e \<Rightarrow> (tbl\<lparr>updating_cell := None, error_cell := Some (message e)\<rparr>, False)))"
  by (auto simp: handleStatusUpdate_def Let_def split_def split: sum.splits)

lemma handleStatusUpdate_sent:
  "alertId \<noteq> [] \<Longrightarrow> newStatus \<noteq> [] \<Longrightarrow>
   fst (handleStatusUpdate alertId newStatus api tbl) = fst (updateAlertStatus alertId newStatus api)"
  by (auto simp: handleStatusUpdate_def Let_def split_def split: sum.splits)

lemma click_after_success:
  assumes "snd (updateAlertStatus alertId newStatus api) = Inr v" "alertId \<noteq> []" "newStatus \<noteq> []"
  shows "clickStatusButton alertId newStatus api (page, tbl) =
     (fst (updateAlertStatus alertId newStatus api) @ fst (fetchAlerts api page),
      (snd (fetchAlerts api page), tbl\<lparr>updating_cell := None, error_cell := None\<rparr>))"
proof -
  have s: "snd (handleStatusUpdate alertId newStatus api tbl)
      = (tbl\<lparr>updating_cell := None, error_cell := None\<rparr>, True)"
    using assms by (simp add: handleStatusUpdate_outcome)
  have f: "fst (handleStatusUpdate alertId newStatus api tbl)
      = fst (updateAlertStatus alertId newStatus api)"
    using assms by (simp add: handleStatusUpdate_sent)
  obtain a b c where h: "handleStatusUpdate alertId newStatus api tbl = (a, b, c)"
    by (cases "handleStatusUpdate alertId newStatus api tbl") auto
  from s f h show ?thesis
    by (simp add: clickStatusButton_def split_def Let_def)
qed

lemma click_after_failure:
  assumes "snd (updateAlertStatus alertId newStatus api) = Inl e" "alertId \<noteq> []" "newStatus \<noteq> []"
  shows "clickStatusButton alertId newStatus api (page, tbl) =
     (fst (updateAlertStatus alertId newStatus api),
      (page, tbl\<lparr>updating_cell := None, error_cell := Some (message e)\<rparr>))"
proof -
  have s: "snd (handleStatusUpdate alertId newStatus api tbl)
      = (tbl\<lparr>updating_cell := None, error_cell := Some (message e)\<rparr>, False)"
    using assms by (simp add: handleStatusUpdate_outcome)
  have f: "fst (handleStatusUpdate alertId newStatus api tbl)
      = fst (updateAlertStatus alertId newStatus api)"
    using assms by (simp add: handleStatusUpdate_sent)
  obtain a b c where h: "handleStatusUpdate alertId newStatus api tbl = (a, b, c)"
    by (cases "handleStatusUpdate alertId newStatus api tbl") auto
  from s f h show ?thesis
    by (simp add: clickStatusButton_def split_def Let_def)
qed

lemma fetchAlerts_success:
  "snd (getAlerts (Some \<lparr>aq_status = statusFilter page, aq_limit = Some 100,
                          aq_offset = Some 0\<rparr>) api) = Inr data \<Longrightarrow>
   snd (fetchAlerts api page) =
     page\<lparr>alerts := alertsOf data, alerts_loading := False, connectionError := None\<rparr>"
  by (simp add: fetchAlerts_def Let_def split_def)

lemma fetchAlerts_failure:
  "snd (getAlerts (Some \<lparr>aq_status = statusFilter page, aq_limit = Some 100,
                          aq_offset = Some 0\<rparr>) api) = Inl e \<Longrightarrow>
   alerts (snd (fetchAlerts api page)) = alerts page \<and>
   \<not> alerts_loading (snd (fetchAlerts api page)) \<and>
   selectedAlert (snd (fetchAlerts api page)) = selectedAlert page"
  by (simp add: fetchAlerts_def Let_def split_def)

lemma tableRows_rows:
  "tableRows v u as = Inr rows \<Longrightarrow> rows = map (\<lambda>a. (a, rowActions v u a)) as"
  by (induction as arbitrary: rows) (auto split: sum.splits)

lemma tableRows_statuses:
  "tableRows v u as = Inr rows \<Longrightarrow> a \<in> set as \<Longrightarrow>
   alert_status a \<in> {''Pending'', ''Verified'', ''Rejected''}"
  by (induction as arbitrary: rows)
     (auto simp: getStatusBadge_def STATUS_CONFIG_def split: sum.splits if_splits)

lemma statusButtons_iff:
  "(statusButtons (rowActions v u a) \<noteq> []) = (alert_status a = ''Pending'')"
  by (simp add: statusButtons_def rowActions_def Let_def)

lemma fetchAlerts_sent:
  "fst (fetchAlerts api page) =
     fst (getAlerts (Some \<lparr>aq_status = statusFilter page, aq_limit = Some 100,
                           aq_offset = Some 0\<rparr>) api)"
  by (simp add: fetchAlerts_def Let_def split_def)

lemma pageTable_rows:
  assumes "pageTable (pg, tbl) = Inr rows" "(a, bs) \<in> set rows"
  shows "a \<in> set (alerts pg) \<and> bs = rowActions True (updating_cell tbl) a \<and>
         (statusButtons bs = []) = (alert_status a = ''Verified'' \<or> alert_status a = ''Rejected'')"
proof -
  from assms have shown: "\<not> (selectedAlert pg \<noteq> None \<or> alerts_loading pg)"
    by (auto simp: pageTable_def split: if_splits)
  with assms(1) have t: "tableRows True (updating_cell tbl) (alerts pg) = Inr rows"
    by (simp add: pageTable_def)
  from tableRows_rows [OF t] assms(2)
  have a: "a \<in> set (alerts pg)" and bs: "bs = rowActions True (updating_cell tbl) a"
    by auto
  from tableRows_statuses [OF t a]
  have "alert_status a \<in> {''Pending'', ''Verified'', ''Rejected''}" .
  with statusButtons_iff [of True "updating_cell tbl" a] bs
  have "(statusButtons bs = []) = (alert_status a = ''Verified'' \<or> alert_status a = ''Rejected'')"
    by auto
  with a bs show ?thesis by simp
qed

text \<open>
  C3, amended. A row of the alerts table has status-changing buttons exactly when the
  status of its alert is the string \<open>Pending\<close>; they are then Verify and Reject, asking
  for \<open>Verified\<close> and \<open>Rejected\<close>, so the transitions the table starts are from
  \<open>Pending\<close> to \<open>Verified\<close> and from \<open>Pending\<close> to \<open>Rejected\<close> only. A click sends
  at most one request, the status update of that alert to the status of the button; the
  handler calls \<open>onStatusUpdate\<close> exactly when the update succeeded, and otherwise shows
  the message of the error. On the alerts page a successful update is followed by one
  fetch of the list. When that fetch succeeds, the table shows the fetched list, and in
  a table that renders, a row is without status buttons exactly when the status of its
  alert is \<open>Verified\<close> or \<open>Rejected\<close>: the buttons of the updated alert are gone once the
  fetched list carries its new status. When that fetch fails, the page keeps its list
  and the table shows the rows it showed before.
\<close>

theorem status_buttons_follow_the_list:
  "(statusButtons (rowActions onView updating alert) \<noteq> []) = (alert_status alert = ''Pending'')
   \<and> map label (statusButtons (rowActions onView updating alert))
       = (if alert_status alert = ''Pending'' then [''Verify'', ''Reject''] else [])
   \<and> map (\<lambda>b. (alert_status alert, requestedStatus b))
         (statusButtons (rowActions onView updating alert))
       = (if alert_status alert = ''Pending''
          then [(''Pending'', Some ''Verified''), (''Pending'', Some ''Rejected'')] else [])
   \<and> map onClick (statusButtons (rowActions onView updating alert))
       = (if alert_status alert = ''Pending''
          then [HandleStatusUpdate (alert_id alert) ''Verified'',
                HandleStatusUpdate (alert_id alert) ''Rejected'']
          else [])
   \<and> fst (handleStatusUpdate alertId newStatus api tbl)
       = (if alertId = [] \<or> newStatus = [] \<or> trim alertId = [] \<or>
             newStatus \<noteq> ''Pending'' \<and> newStatus \<noteq> ''Verified'' \<and> newStatus \<noteq> ''Rejected''
          then []
          else [\<lparr>req_method = PUT, url = ''/api/v1/alerts/'' @ alertId @ ''/status'',
                 payload = [(''status'', FStr newStatus)]\<rparr>])
   \<and> snd (handleStatusUpdate alertId newStatus api tbl)
       = (if alertId = [] \<or> newStatus = [] then
            (tbl\<lparr>error_cell := Some ''Alert ID and status are required''\<rparr>, False)
          else
            (case snd (updateAlertStatus alertId newStatus api) of
               Inr v \<Rightarrow> (tbl\<lparr>updating_cell := None, error_cell := None\<rparr>, True)
             | Inl e \<Rightarrow> (tbl\<lparr>updating_cell := None, error_cell := Some (message e)\<rparr>, False)))
   \<and> (pageTable (pg, tbl) = Inr rows \<and> (a, bs) \<in> set rows \<longrightarrow>
        a \<in> set (alerts pg) \<and> bs = rowActions True (updating_cell tbl) a \<and>
        (statusButtons bs = []) = (alert_status a = ''Verified'' \<or> alert_status a = ''Rejected''))
   \<and> (alertId \<noteq> [] \<and> newStatus \<noteq> [] \<and>
        snd (updateAlertStatus alertId newStatus api) = Inr updated \<and>
        snd (getAlerts (Some \<lparr>aq_status = statusFilter page, aq_limit = Some 100,
                               aq_offset = Some 0\<rparr>) api) = Inr data \<longrightarrow>
        clickStatusButton alertId newStatus api (page, tbl) =
          (fst (updateAlertStatus alertId newStatus api)
           @ fst (getAlerts (Some \<lparr>aq_status = statusFilter page, aq_limit = Some 100,
                                   aq_offset = Some 0\<rparr>) api),
           (page\<lparr>alerts := alertsOf data, alerts_loading := False, connectionError := None\<rparr>,
            tbl\<lparr>updating_cell := None, error_cell := None\<rparr>)) \<and>
        pageTable (snd (clickStatusButton alertId newStatus api (page, tbl))) =
          (if selectedAlert page \<noteq> None then Inr [] else tableRows True None (alertsOf data)))
   \<and> (alertId \<noteq> [] \<and> newStatus \<noteq> [] \<and>
        snd (updateAlertStatus alertId newStatus api) = Inr updated \<and>
        snd (getAlerts (Some \<lparr>aq_status = statusFilter page, aq_limit = Some 100,
                               aq_offset = Some 0\<rparr>) api) = Inl failure \<longrightarrow>
        alerts (fst (snd (clickStatusButton alertId newStatus api (page, tbl)))) = alerts page \<and>
        pageTable (snd (clickStatusButton alertId newStatus api (page, tbl))) =
          (if selectedAlert page \<noteq> None then Inr [] else tableRows True None (alerts page)))
   \<and> (alertId \<noteq> [] \<and> newStatus \<noteq> [] \<and>
        snd (updateAlertStatus alertId newStatus api) = Inl failure \<longrightarrow>
        clickStatusButton alertId newStatus api (page, tbl) =
          (fst (updateAlertStatus alertId newStatus api),
           (page, tbl\<lparr>updating_cell := None, error_cell := Some (message failure)\<rparr>)))"
proof -
  have buttons:
    "statusButtons (rowActions v u x)
       = (if alert_status x = ''Pending''
          then [\<lparr>label = ''Verify'', onClick = HandleStatusUpdate (alert_id x) ''Verified'',
                 disabled = (u = Some (alert_id x))\<rparr>,
                \<lparr>label = ''Reject'', onClick = HandleStatusUpdate (alert_id x) ''Rejected'',
                 disabled = (u = Some (alert_id x))\<rparr>]
          else [])" for v u x
    by (simp add: statusButtons_def rowActions_def Let_def)
  have r1: "(statusButtons (rowActions onView updating alert) \<noteq> []) = (alert_status alert = ''Pending'')"
    unfolding buttons by simp
  have r2: "map label (statusButtons (rowActions onView updating alert))
       = (if alert_status alert = ''Pending'' then [''Verify'', ''Reject''] else [])"
    unfolding buttons by simp
  have r3: "map (\<lambda>b. (alert_status alert, requestedStatus b))
         (statusButtons (rowActions onView updating alert))
       = (if alert_status alert = ''Pending''
          then [(''Pending'', Some ''Verified''), (''Pending'', Some ''Rejected'')] else [])"
    unfolding buttons by simp
  have r4: "map onClick (statusButtons (rowActions onView updating alert))
       = (if alert_status alert = ''Pending''
          then [HandleStatusUpdate (alert_id alert) ''Verified'',
                HandleStatusUpdate (alert_id alert) ''Rejected'']
          else [])"
    unfolding buttons by simp
  have click: "fst (handleStatusUpdate alertId newStatus api tbl)
       = (if alertId = [] \<or> newStatus = [] \<or> trim alertId = [] \<or>
             newStatus \<noteq> ''Pending'' \<and> newStatus \<noteq> ''Verified'' \<and> newStatus \<noteq> ''Rejected''
          then []
          else [\<lparr>req_method = PUT, url = ''/api/v1/alerts/'' @ alertId @ ''/status'',
                 payload = [(''status'', FStr newStatus)]\<rparr>])"
    by (auto simp: handleStatusUpdate_def updateAlertStatus_def validStatuses_def
          throwApiError_def Let_def split: sum.splits)
  note outcome = handleStatusUpdate_outcome [of alertId newStatus api tbl]
  have rows: "pageTable (pg, tbl) = Inr rows \<and> (a, bs) \<in> set rows \<longrightarrow>
        a \<in> set (alerts pg) \<and> bs = rowActions True (updating_cell tbl) a \<and>
        (statusButtons bs = []) = (alert_status a = ''Verified'' \<or> alert_status a = ''Rejected'')"
    using pageTable_rows [of pg tbl rows a bs] by blast
  have ok: "alertId \<noteq> [] \<and> newStatus \<noteq> [] \<and>
        snd (updateAlertStatus alertId newStatus api) = Inr updated \<and>
        snd (getAlerts (Some \<lparr>aq_status = statusFilter page, aq_limit = Some 100,
                               aq_offset = Some 0\<rparr>) api) = Inr data \<longrightarrow>
        clickStatusButton alertId newStatus api (page, tbl) =
          (fst (updateAlertStatus alertId newStatus api)
           @ fst (getAlerts (Some \<lparr>aq_status = statusFilter page, aq_limit = Some 100,
                                   aq_offset = Some 0\<rparr>) api),
           (page\<lparr>alerts := alertsOf data, alerts_loading := False, connectionError := None\<rparr>,
            tbl\<lparr>updating_cell := None, error_cell := None\<rparr>)) \<and>
        pageTable (snd (clickStatusButton alertId newStatus api (page, tbl))) =
          (if selectedAlert page \<noteq> None then Inr [] else tableRows True None (alertsOf data))"
  proof (intro impI, elim conjE)
    assume h: "alertId \<noteq> []" "newStatus \<noteq> []"
      "snd (updateAlertStatus alertId newStatus api) = Inr updated"
      "snd (getAlerts (Some \<lparr>aq_status = statusFilter page, aq_limit = Some 100,
                               aq_offset = Some 0\<rparr>) api) = Inr data"
    have c: "clickStatusButton alertId newStatus api (page, tbl) =
          (fst (updateAlertStatus alertId newStatus api)
           @ fst (getAlerts (Some \<lparr>aq_status = statusFilter page, aq_limit = Some 100,
                                   aq_offset = Some 0\<rparr>) api),
           (page\<lparr>alerts := alertsOf data, alerts_loading := False, connectionError := None\<rparr>,
            tbl\<lparr>updating_cell := None, error_cell := None\<rparr>))"
      using click_after_success [OF h(3) h(1) h(2), of page tbl]
      by (simp add: fetchAlerts_sent fetchAlerts_success [OF h(4)])
    show "clickStatusButton alertId newStatus api (page, tbl) =
          (fst (updateAlertStatus alertId newStatus api)
           @ fst (getAlerts (Some \<lparr>aq_status = statusFilter page, aq_limit = Some 100,
                                   aq_offset = Some 0\<rparr>) api),
           (page\<lparr>alerts := alertsOf data, alerts_loading := False, connectionError := None\<rparr>,
            tbl\<lparr>updating_cell := None, error_cell := None\<rparr>)) \<and>
        pageTable (snd (clickStatusButton alertId newStatus api (page, tbl))) =
          (if selectedAlert page \<noteq> None then Inr [] else tableRows True None (alertsOf data))"
      unfolding c by (simp add: pageTable_def)
  qed
  have stale: "alertId \<noteq> [] \<and> newStatus \<noteq> [] \<and>
        snd (updateAlertStatus alertId newStatus api) = Inr updated \<and>
        snd (getAlerts (Some \<lparr>aq_status = statusFilter page, aq_limit = Some 100,
                               aq_offset = Some 0\<rparr>) api) = Inl failure \<longrightarrow>
        alerts (fst (snd (clickStatusButton alertId newStatus api (page, tbl)))) = alerts page \<and>
        pageTable (snd (clickStatusButton alertId newStatus api (page, tbl))) =
          (if selectedAlert page \<noteq> None then Inr [] else tableRows True None (alerts page))"
  proof (intro impI, elim conjE)
    assume h: "alertId \<noteq> []" "newStatus \<noteq> []"
      "snd (updateAlertStatus alertId newStatus api) = Inr updated"
      "snd (getAlerts (Some \<lparr>aq_status = statusFilter page, aq_limit = Some 100,
                               aq_offset = Some 0\<rparr>) api) = Inl failure"
    show "alerts (fst (snd (clickStatusButton alertId newStatus api (page, tbl)))) = alerts page \<and>
        pageTable (snd (clickStatusButton alertId newStatus api (page, tbl))) =
          (if selectedAlert page \<noteq> None then Inr [] else tableRows True None (alerts page))"
      using click_after_success [OF h(3) h(1) h(2), of page tbl] fetchAlerts_failure [OF h(4)]
      by (simp add: pageTable_def)
  qed
  have failed: "alertId \<noteq> [] \<and> newStatus \<noteq> [] \<and>
        snd (updateAlertStatus alertId newStatus api) = Inl failure \<longrightarrow>
        clickStatusButton alertId newStatus api (page, tbl) =
          (fst (updateAlertStatus alertId newStatus api),
           (page, tbl\<lparr>updating_cell := None, error_cell := Some (message failure)\<rparr>))"
    using click_after_failure [of alertId newStatus api failure page tbl] by blast
  show ?thesis
    using r1 r2 r3 r4 click outcome rows ok stale failed by blast
qed

text \<open>
  C3, as stated, fails after the update: the table changes no alert itself. With a
  backend that accepts the update to \<open>Verified\<close> but cannot be reached for the list,
  the update succeeds, \<open>onStatusUpdate\<close> is called, the fetch fails, and the page still
  lists the alert as \<open>Pending\<close>, with its Verify and Reject buttons.
\<close>

theorem buttons_stay_when_refetch_fails:
  "snd (updateAlertStatus ''a1'' ''Verified'' list_down_api) = Inr verified_body
   \<and> snd (snd (handleStatusUpdate ''a1'' ''Verified'' list_down_api (snd one_pending))) = True
   \<and> fst (clickStatusButton ''a1'' ''Verified'' list_down_api one_pending)
       = [\<lparr>req_method = PUT, url = ''/api/v1/alerts/a1/status'',
           payload = [(''status'', FStr ''Verified'')]\<rparr>,
          \<lparr>req_method = GET, url = ''/api/v1/alerts'',
           payload = [(''limit'', FNum 100), (''offset'', FNum 0)]\<rparr>]
   \<and> alerts (fst (snd (clickStatusButton ''a1'' ''Verified'' list_down_api one_pending)))
       = [pending_alert]
   \<and> pageTable (snd (clickStatusButton ''a1'' ''Verified'' list_down_api one_pending))
       = Inr [(pending_alert, rowActions True None pending_alert)]
   \<and> map label (statusButtons (rowActions True None pending_alert)) = [''Verify'', ''Reject'']"
proof -
  have u: "updateAlertStatus ''a1'' ''Verified'' list_down_api
      = ([\<lparr>req_method = PUT, url = ''/api/v1/alerts/a1/status'',
            payload = [(''status'', FStr ''Verified'')]\<rparr>], Inr verified_body)"
    by (simp add: updateAlertStatus_def getAlerts_def validStatuses_def param_or_def trim_def
          isWhiteSpace_def Let_def send_def catchClause_def unwrapData_def responseRejected_def
          newApiError_def or_else_def throwApiError_def verified_body_def list_down_api_def)
  have g: "getAlerts (Some \<lparr>aq_status = None, aq_limit = Some 100, aq_offset = Some 0\<rparr>)
             list_down_api
      = ([\<lparr>req_method = GET, url = ''/api/v1/alerts'',
            payload = [(''limit'', FNum 100), (''offset'', FNum 0)]\<rparr>],
         Inl \<lparr>message = ''Network error: Unable to reach server at https://api.example/. Please ensure the backend is running.'',
              statusCode = Some 0, response = None\<rparr>)"
    by (simp add: updateAlertStatus_def getAlerts_def validStatuses_def param_or_def trim_def
          isWhiteSpace_def Let_def send_def catchClause_def unwrapData_def responseRejected_def
          newApiError_def or_else_def throwApiError_def verified_body_def list_down_api_def)
  have h: "handleStatusUpdate ''a1'' ''Verified'' list_down_api
             \<lparr>updating_cell = None, error_cell = None\<rparr>
      = ([\<lparr>req_method = PUT, url = ''/api/v1/alerts/a1/status'',
            payload = [(''status'', FStr ''Verified'')]\<rparr>],
         \<lparr>updating_cell = None, error_cell = None\<rparr>, True)"
    by (simp add: handleStatusUpdate_def u)
  have f: "alerts (snd (fetchAlerts list_down_api
             \<lparr>alerts = [pending_alert], alerts_loading = False, statusFilter = None,
              selectedAlert = None, connectionError = None\<rparr>)) = [pending_alert]
         \<and> \<not> alerts_loading (snd (fetchAlerts list_down_api
             \<lparr>alerts = [pending_alert], alerts_loading = False, statusFilter = None,
              selectedAlert = None, connectionError = None\<rparr>))
         \<and> selectedAlert (snd (fetchAlerts list_down_api
             \<lparr>alerts = [pending_alert], alerts_loading = False, statusFilter = None,
              selectedAlert = None, connectionError = None\<rparr>)) = None
         \<and> fst (fetchAlerts list_down_api
             \<lparr>alerts = [pending_alert], alerts_loading = False, statusFilter = None,
              selectedAlert = None, connectionError = None\<rparr>)
            = [\<lparr>req_method = GET, url = ''/api/v1/alerts'',
                payload = [(''limit'', FNum 100), (''offset'', FNum 0)]\<rparr>]"
    by (simp add: fetchAlerts_def g Let_def)
  have t: "tableRows True None [pending_alert] = Inr [(pending_alert, rowActions True None pending_alert)]"
    by (simp add: getStatusBadge_def STATUS_CONFIG_def pending_alert_def)
  have b: "map label (statusButtons (rowActions True None pending_alert)) = [''Verify'', ''Reject'']"
    by (simp add: statusButtons_def rowActions_def pending_alert_def Let_def)
  show ?thesis
    using u h f t b
    by (simp add: clickStatusButton_def one_pending_def pageTable_def split_def Let_def)
qed

theorem status_buttons_follow_the_list_witness:
  "clickStatusButton ''a1'' ''Verified'' refreshing_api one_pending
     = ([\<lparr>req_method = PUT, url = ''/api/v1/alerts/a1/status'',
          payload = [(''status'', FStr ''Verified'')]\<rparr>,
         \<lparr>req_method = GET, url = ''/api/v1/alerts'',
          payload = [(''limit'', FNum 100), (''offset'', FNum 0)]\<rparr>],
        (\<lparr>alerts = [pending_alert\<lparr>alert_status := ''Verified''\<rparr>], alerts_loading = False,
          statusFilter = None, selectedAlert = None, connectionError = None\<rparr>,
         \<lparr>updating_cell = None, error_cell = None\<rparr>))
   \<and> pageTable (snd (clickStatusButton ''a1'' ''Verified'' refreshing_api one_pending))
     = Inr [(pending_alert\<lparr>alert_status := ''Verified''\<rparr>,
             rowActions True None (pending_alert\<lparr>alert_status := ''Verified''\<rparr>))]
   \<and> statusButtons (rowActions True None (pending_alert\<lparr>alert_status := ''Verified''\<rparr>)) = []
   \<and> alerts (fst (snd (clickStatusButton ''a1'' ''Verified'' list_down_api one_pending)))
     = [pending_alert]
   \<and> clickStatusButton ''a1'' ''Verified'' down_api one_pending
     = ([\<lparr>req_method = PUT, url = ''/api/v1/alerts/a1/status'',
          payload = [(''status'', FStr ''Verified'')]\<rparr>],
        (fst one_pending, \<lparr>updating_cell = None, error_cell = Some ''down''\<rparr>))"
proof -
  let ?page = "\<lparr>alerts = [pending_alert], alerts_loading = False, statusFilter = None,
                selectedAlert = None, connectionError = None\<rparr>"
  let ?tbl = "\<lparr>updating_cell = None, error_cell = None\<rparr>"
  let ?verified = "pending_alert\<lparr>alert_status := ''Verified''\<rparr>"
  let ?put = "\<lparr>req_method = PUT, url = ''/api/v1/alerts/a1/status'',
               payload = [(''status'', FStr ''Verified'')]\<rparr>"
  let ?get = "\<lparr>req_method = GET, url = ''/api/v1/alerts'',
               payload = [(''limit'', FNum 100), (''offset'', FNum 0)]\<rparr>"
  have u1: "updateAlertStatus ''a1'' ''Verified'' refreshing_api = ([?put], Inr verified_body)"
    by (simp add: updateAlertStatus_def validStatuses_def trim_def isWhiteSpace_def Let_def
          send_def catchClause_def unwrapData_def verified_body_def refreshing_api_def)
  have g1: "getAlerts (Some \<lparr>aq_status = statusFilter ?page, aq_limit = Some 100,
                              aq_offset = Some 0\<rparr>) refreshing_api
      = ([?get], Inr (JArr [verified_body]))"
    by (simp add: getAlerts_def param_or_def Let_def send_def catchClause_def unwrapData_def
          refreshing_api_def)
  have rd: "alertsOf (JArr [verified_body]) = [?verified]"
    by (simp add: alertsOf_def readAlert_def verified_body_def pending_alert_def)
  have tr: "tableRows True None [?verified] = Inr [(?verified, rowActions True None ?verified)]"
    by (simp add: getStatusBadge_def STATUS_CONFIG_def pending_alert_def)
  have u2: "updateAlertStatus ''a1'' ''Verified'' list_down_api = ([?put], Inr verified_body)"
    by (simp add: updateAlertStatus_def validStatuses_def trim_def isWhiteSpace_def Let_def
          send_def catchClause_def unwrapData_def verified_body_def list_down_api_def)
  have g2: "snd (getAlerts (Some \<lparr>aq_status = statusFilter ?page, aq_limit = Some 100,
                              aq_offset = Some 0\<rparr>) list_down_api)
      = Inl (responseRejected ''https://api.example/''
               \<lparr>err_response = None, err_request = True, err_message = ''Network Error''\<rparr>)"
    by (simp add: getAlerts_def param_or_def Let_def send_def catchClause_def
          list_down_api_def)
  have u3: "updateAlertStatus ''a1'' ''Verified'' down_api
      = ([?put], Inl \<lparr>message = ''down'', statusCode = Some 503,
                       response = Some (JObj [(''detail'', JStr ''down'')])\<rparr>)"
    by (simp add: updateAlertStatus_def validStatuses_def trim_def isWhiteSpace_def Let_def
          send_def catchClause_def responseRejected_def newApiError_def or_else_def
          down_api_def)
  note ok = status_buttons_follow_the_list [where alertId = "''a1''" and newStatus = "''Verified''"
      and api = refreshing_api and page = ?page and tbl = ?tbl and updated = verified_body
      and data = "JArr [verified_body]"
      and pg = "\<lparr>alerts = [?verified], alerts_loading = False, statusFilter = None,
                 selectedAlert = None, connectionError = None\<rparr>"
      and rows = "[(?verified, rowActions True None ?verified)]"
      and a = ?verified and bs = "rowActions True None ?verified"]
  note stale = status_buttons_follow_the_list [where alertId = "''a1''"
      and newStatus = "''Verified''" and api = list_down_api and page = ?page and tbl = ?tbl
      and updated = verified_body
      and failure = "responseRejected ''https://api.example/''
               \<lparr>err_response = None, err_request = True, err_message = ''Network Error''\<rparr>"]
  note failed = status_buttons_follow_the_list [where alertId = "''a1''"
      and newStatus = "''Verified''" and api = down_api and page = ?page and tbl = ?tbl
      and failure = "\<lparr>message = ''down'', statusCode = Some 503,
                       response = Some (JObj [(''detail'', JStr ''down'')])\<rparr>"]
  have w1: "clickStatusButton ''a1'' ''Verified'' refreshing_api (?page, ?tbl)
      = ([?put, ?get],
         (\<lparr>alerts = [?verified], alerts_loading = False, statusFilter = None,
           selectedAlert = None, connectionError = None\<rparr>, ?tbl))"
    using ok u1 g1 rd by simp
  have w2: "statusButtons (rowActions True None ?verified) = []"
    using ok tr by (simp add: pageTable_def pending_alert_def)
  have w3: "alerts (fst (snd (clickStatusButton ''a1'' ''Verified'' list_down_api (?page, ?tbl))))
      = [pending_alert]"
    using stale u2 g2 by simp
  have w4: "clickStatusButton ''a1'' ''Verified'' down_api (?page, ?tbl)
      = ([?put], (?page, \<lparr>updating_cell = None, error_cell = Some ''down''\<rparr>))"
    using failed u3 by simp
  show ?thesis
    using w1 w2 w3 w4 tr by (simp add: one_pending_def pageTable_def)
qed

text \<open>
  C5. A WebP file of 2 KB passes the upload card, which hands it to the page; the
  enrollment accessor then refuses the same file with the \<open>ApiError\<close> of code 400
  whose message lists JPEG, PNG, BMP and GIF only. A PDF file is refused by the card,
  with the message that names the allowed types, and is never selected.
\<close>

theorem webp_accepted_by_card_rejected_by_enroll:
  "handleFile False 10 \<lparr>file_name = ''face.webp'', file_type = ''image/webp'', file_size = 2048\<rparr>
     = (Some \<lparr>file_name = ''face.webp'', file_type = ''image/webp'', file_size = 2048\<rparr>, None)
   \<and> uploadSingleImage
         (Some \<lparr>file_name = ''face.webp'', file_type = ''image/webp'', file_size = 2048\<rparr>)
         ''A'' None ''Theft'' None ''S'' ''D'' ''20-30'' False api
     = ([], Inl \<lparr>message = ''Invalid image type. Supported: JPEG, PNG, BMP, GIF'',
                 statusCode = Some 400, response = None\<rparr>)
   \<and> handleFile False 10 \<lparr>file_name = ''notes.pdf'', file_type = ''application/pdf'', file_size = 2048\<rparr>
     = (None, Some (Message
          ''Invalid file type. Please select a JPEG, PNG, BMP, GIF, or WebP image.''))"
  by (simp add: handleFile_def validateFile_def isValidImageType_def VALID_IMAGE_TYPES_def
        uploadSingleImage_def validTypes_def throwApiError_def newApiError_def
        toLowerCase_def lowerChar_def trim_def isWhiteSpace_def Let_def)

section \<open>Properties of the accessors\<close>

lemma unwrapData_throws: "unwrapData d = Inl t \<Longrightarrow> \<exists>m. t = ThrownOther m"
  by (cases d) (auto simp: unwrapData_def split: if_splits bool.splits)

lemma catch_unwrap:
  "catchClause msg (case send api req of Inl e \<Rightarrow> Inl e | Inr data \<Rightarrow> unwrapData data) =
     (case transport api req of
        Inl err \<Rightarrow> Inl (responseRejected (baseURL api) err)
      | Inr data \<Rightarrow>
          (case unwrapData data of
             Inl t \<Rightarrow> Inl \<lparr>message = msg, statusCode = Some 500, response = None\<rparr>
           | Inr v \<Rightarrow> Inr v))"
  by (auto simp: catchClause_def send_def newApiError_def split: sum.splits thrown.splits
           dest: unwrapData_throws)

lemma catch_send:
  "catchClause msg (send api req) =
     (case transport api req of
        Inl err \<Rightarrow> Inl (responseRejected (baseURL api) err)
      | Inr data \<Rightarrow> Inr data)"
  by (auto simp: catchClause_def send_def split: sum.splits)

lemma discipline_getCriminals:
  "errorDiscipline [''limit must be between 1 and 1000'', ''offset must be non-negative'']
     [''Failed to retrieve criminals''] api (getCriminals params api)"
  by (auto simp: errorDiscipline_def getCriminals_def throwApiError_def newApiError_def Let_def
        catch_unwrap split: sum.splits)

lemma discipline_getCriminal:
  "errorDiscipline [''personId is required''] [''Failed to retrieve criminal''] api
     (getCriminal pid api)"
  by (auto simp: errorDiscipline_def getCriminal_def throwApiError_def newApiError_def Let_def
        catch_unwrap split: sum.splits)

lemma discipline_updateCriminal:
  "errorDiscipline [''personId is required''] [''Failed to update criminal''] api
     (updateCriminal pid updateData api)"
  by (auto simp: errorDiscipline_def updateCriminal_def throwApiError_def newApiError_def Let_def
        catch_unwrap split: sum.splits)

lemma discipline_getAlerts:
  "errorDiscipline [''limit must be between 1 and 1000'', ''offset must be non-negative'']
     [''Failed to retrieve alerts''] api (getAlerts aparams api)"
  by (auto simp: errorDiscipline_def getAlerts_def throwApiError_def newApiError_def Let_def
        catch_unwrap split: sum.splits)

lemma discipline_getAlert:
  "errorDiscipline [''alertId is required''] [''Failed to retrieve alert''] api (getAlert alertId api)"
  by (auto simp: errorDiscipline_def getAlert_def throwApiError_def newApiError_def Let_def
        catch_unwrap split: sum.splits)

lemma discipline_updateAlertStatus:
  "errorDiscipline
     [''alertId is required'', ''Invalid status. Must be one of: Pending, Verified, Rejected'']
     [''Failed to update alert status''] api (updateAlertStatus alertId newStatus api)"
  by (auto simp: errorDiscipline_def updateAlertStatus_def throwApiError_def newApiError_def
        Let_def catch_unwrap split: sum.splits)

lemma discipline_matchFace:
  "errorDiscipline
     [''Image file is required'', ''maxResults must be between 1 and 100'',
      ''similarityThreshold must be between 0 and 100'']
     [''Failed to match face''] api (matchFace img maxResults threshold createAlert senderId api)"
  by (auto simp: errorDiscipline_def matchFace_def throwApiError_def newApiError_def
        Let_def catch_send split: sum.splits option.splits)

lemma discipline_uploadSingleImage:
  "errorDiscipline
     [''Image file is required'', ''Name is required'',
      ''Invalid image type. Supported: JPEG, PNG, BMP, GIF'']
     [''Failed to enroll image''] api
     (uploadSingleImage img nm pid crime gen st dis age aug api)"
  by (auto simp: errorDiscipline_def uploadSingleImage_def throwApiError_def newApiError_def
        Let_def catch_send split: sum.splits option.splits)

lemma discipline_uploadMultipleImages:
  "errorDiscipline
     ([''At least one image is required'', ''Name is required'']
      @ map (\<lambda>i. ''Invalid image type: '' @ file_name i @ ''. Supported: JPEG, PNG, BMP, GIF'')
          imgs)
     [''Failed to enroll images''] api
     (uploadMultipleImages imgs nm optId optCrime aug api)"
proof (cases "find (\<lambda>i. toLowerCase (file_type i) \<notin> set validTypes) imgs")
  case None
  then show ?thesis
    by (auto simp: errorDiscipline_def uploadMultipleImages_def throwApiError_def
          newApiError_def Let_def catch_send split: sum.splits)
next
  case (Some bad)
  then have "bad \<in> set imgs"
    by (auto simp: find_Some_iff)
  with Some show ?thesis
    by (auto simp: errorDiscipline_def uploadMultipleImages_def throwApiError_def
          newApiError_def Let_def)
qed

lemma discipline_enrollBulk:
  "errorDiscipline
     [''Excel/CSV file is required'', ''Invalid file type. Supported: .xlsx, .xls, .csv'']
     [''Failed to enroll from Excel/CSV''] api (enrollBulk excel folder api)"
  by (auto simp: errorDiscipline_def enrollBulk_def throwApiError_def newApiError_def
        Let_def catch_send split: sum.splits option.splits)

lemma discipline_matchFaceFromUrl:
  "errorDiscipline
     [''image_url is required'', ''image_url must be a valid HTTP/HTTPS URL'',
      ''max_results must be between 1 and 100'',
      ''similarity_threshold must be between 0 and 100'']
     [''Failed to match face from URL''] api (matchFaceFromUrl mreq api)"
  by (auto simp: errorDiscipline_def matchFaceFromUrl_def throwApiError_def newApiError_def
        Let_def catch_send split: sum.splits option.splits)

lemma discipline_getPresignedUrl:
  "errorDiscipline
     [''Either s3_key or image_url must be provided'', ''s3_key cannot be empty'',
      ''image_url cannot be empty'', ''image_url must be a valid HTTP/HTTPS URL'']
     [''Failed to generate presigned URL''] api (getPresignedUrl ureq api)"
  by (auto simp: errorDiscipline_def getPresignedUrl_def throwApiError_def newApiError_def
        Let_def catch_send split: sum.splits option.splits)

lemma js_prop_throws: "js_prop k v = Inl t \<Longrightarrow> t = ThrownOther ''TypeError'' \<and> (v = JNull \<or> v = JUndefined)"
  by (cases v) auto

lemma statesOf_throws: "statesOf xs = Inl t \<Longrightarrow> \<exists>m. t = ThrownOther m"
  by (induction xs arbitrary: t)
     (auto split: sum.splits jsval.splits if_splits dest: js_prop_throws)

lemma districtsOf_throws: "districtsOf s xs = Inl t \<Longrightarrow> \<exists>m. t = ThrownOther m"
  by (induction xs arbitrary: t)
     (auto split: sum.splits jsval.splits if_splits dest: js_prop_throws)

lemma getCriminals_limit1000:
  "getCriminals (Some limit1000) api =
     ([\<lparr>req_method = GET, url = ''/api/v1/criminals'',
        payload = [(''limit'', FNum 1000), (''offset'', FNum 0)]\<rparr>],
      case transport api \<lparr>req_method = GET, url = ''/api/v1/criminals'',
                          payload = [(''limit'', FNum 1000), (''offset'', FNum 0)]\<rparr> of
        Inl err \<Rightarrow> Inl (responseRejected (baseURL api) err)
      | Inr data \<Rightarrow>
          (case unwrapData data of
             Inl t \<Rightarrow> Inl \<lparr>message = ''Failed to retrieve criminals'', statusCode = Some 500,
                         response = None\<rparr>
           | Inr v \<Rightarrow> Inr v))"
  by (simp add: getCriminals_def limit1000_def param_or_def trimmed_param_def Let_def
        catch_unwrap)

lemma discipline_getUniqueStates:
  "errorDiscipline [] [''Failed to retrieve criminals'', ''Failed to retrieve states''] api
     (getUniqueStates api)"
  by (auto simp: errorDiscipline_def getUniqueStates_def getCriminals_limit1000
        catchClause_def newApiError_def
        split: sum.splits jsval.splits thrown.splits dest: statesOf_throws)

lemma discipline_getDistrictsByState:
  "if st = [] \<or> trim st = [] then getDistrictsByState st api = ([], Inr [])
   else errorDiscipline [] [''Failed to retrieve criminals'', ''Failed to retrieve districts'']
          api (getDistrictsByState st api)"
  by (auto simp: errorDiscipline_def getDistrictsByState_def getCriminals_limit1000
        catchClause_def newApiError_def
        split: sum.splits jsval.splits thrown.splits dest: districtsOf_throws)

lemma trim_shape_idem:
  "rev (dropWhile P (rev (dropWhile P (rev (dropWhile P (rev (dropWhile P s)))))))
   = rev (dropWhile P (rev (dropWhile P s)))"
proof -
  define a where "a = dropWhile P s"
  define b where "b = rev (dropWhile P (rev a))"
  have ab: "a = b @ rev (takeWhile P (rev a))"
  proof -
    have "a = rev (rev a)" by simp
    also have "\<dots> = rev (takeWhile P (rev a) @ dropWhile P (rev a))"
      by (simp only: takeWhile_dropWhile_id)
    also have "\<dots> = rev (dropWhile P (rev a)) @ rev (takeWhile P (rev a))"
      by (rule rev_append)
    finally show ?thesis unfolding b_def .
  qed
  have front: "dropWhile P b = b"
  proof (cases b)
    case Nil
    then show ?thesis by simp
  next
    case (Cons x xs)
    from ab Cons have "a = x # (xs @ rev (takeWhile P (rev a)))" by simp
    then have "a \<noteq> []" and hd: "hd a = x" by (metis list.distinct(1), metis list.sel(1))
    then have "\<not> P (hd a)" unfolding a_def by (metis hd_dropWhile)
    with hd Cons show ?thesis by simp
  qed
  have rear: "dropWhile P (rev b) = rev b"
    unfolding b_def by (simp add: dropWhile_idem)
  have "rev (dropWhile P (rev (dropWhile P b))) = b"
    unfolding front rear by simp
  then show ?thesis
    unfolding b_def a_def .
qed

lemma trim_idem: "trim (trim s) = trim s"
  unfolding trim_def by (rule trim_shape_idem)

lemma discipline_getPresignedUrlFromS3Key:
  "helperDiscipline [''s3Key is required''] api (getPresignedUrlFromS3Key k api)"
  by (auto simp: helperDiscipline_def getPresignedUrlFromS3Key_def getPresignedUrl_def
        provided_def text_field_def throwApiError_def newApiError_def Let_def catch_send
        trim_idem split: sum.splits dest: js_prop_throws)

lemma discipline_getPresignedUrlFromImageUrl:
  "helperDiscipline [''imageUrl is required'', ''image_url must be a valid HTTP/HTTPS URL'']
     api (getPresignedUrlFromImageUrl u api)"
  by (auto simp: helperDiscipline_def getPresignedUrlFromImageUrl_def getPresignedUrl_def
        provided_def text_field_def throwApiError_def newApiError_def Let_def catch_send
        trim_idem split: sum.splits dest: js_prop_throws)

lemma responseRejected_wraps:
  "err_response err = Some (st, data) \<Longrightarrow>
     statusCode (responseRejected b err) = Some st \<and> response (responseRejected b err) = Some data"
  by (simp add: responseRejected_def newApiError_def Let_def)

lemma responseRejected_no_response:
  "err_response err = None \<Longrightarrow>
     statusCode (responseRejected b err) = Some 0 \<and> response (responseRejected b err) = None"
  by (simp add: responseRejected_def newApiError_def)

text \<open>
  C7, as stated, fails on the message: the type check of \<open>uploadMultipleImages\<close>
  puts the name of the offending file into its message, so two files that fail the same
  check get two different messages.
\<close>

theorem validation_message_names_the_file:
  "snd (uploadMultipleImages
          [\<lparr>file_name = ''a.txt'', file_type = ''text/plain'', file_size = 10\<rparr>]
          ''A'' None None False down_api)
     = Inl \<lparr>message = ''Invalid image type: a.txt. Supported: JPEG, PNG, BMP, GIF'',
            statusCode = Some 400, response = None\<rparr>
   \<and> snd (uploadMultipleImages
          [\<lparr>file_name = ''b.txt'', file_type = ''text/plain'', file_size = 10\<rparr>]
          ''A'' None None False down_api)
     = Inl \<lparr>message = ''Invalid image type: b.txt. Supported: JPEG, PNG, BMP, GIF'',
            statusCode = Some 400, response = None\<rparr>
   \<and> snd (uploadMultipleImages
          [\<lparr>file_name = ''a.txt'', file_type = ''text/plain'', file_size = 10\<rparr>]
          ''A'' None None False down_api)
     \<noteq> snd (uploadMultipleImages
          [\<lparr>file_name = ''b.txt'', file_type = ''text/plain'', file_size = 10\<rparr>]
          ''A'' None None False down_api)"
  by (simp add: uploadMultipleImages_def validTypes_def toLowerCase_def lowerChar_def
        trim_def isWhiteSpace_def throwApiError_def newApiError_def)

text \<open>
  C7, amended. Every accessor follows the error discipline above: a failed input check
  is an \<open>ApiError\<close> of code 400, thrown before any request, whose message is a literal
  of the accessor (for the type check of \<open>uploadMultipleImages\<close>, the literal with the
  name of the offending file inserted); a rejected request surfaces as the \<open>ApiError\<close>
  the client made of it, unchanged. \<open>getDistrictsByState\<close> has no input error: for a
  blank state it returns the empty list without a request. In particular
  \<open>getCriminals\<close> rejects a limit outside 1 to 1000 and a negative offset, and
  \<open>updateAlertStatus\<close> rejects a blank alert id and a status outside the three valid
  ones, each without a request. The \<open>ApiError\<close> made of a server answer carries the
  status code and the raw body of the answer; the one made of a missing answer carries
  code 0 and no body. The \<open>catch\<close> clause re-throws an \<open>ApiError\<close> as it is and
  wraps anything else into an \<open>ApiError\<close> of code 500 with the accessor's message.
\<close>

theorem accessor_error_handling:
  fixes api :: "jsval apiClient"
  shows
  "errorDiscipline [''limit must be between 1 and 1000'', ''offset must be non-negative'']
     [''Failed to retrieve criminals''] api (getCriminals params api)
   \<and> errorDiscipline [''personId is required''] [''Failed to retrieve criminal''] api
       (getCriminal pid api)
   \<and> errorDiscipline [''personId is required''] [''Failed to update criminal''] api
       (updateCriminal pid updateData api)
   \<and> errorDiscipline [''limit must be between 1 and 1000'', ''offset must be non-negative'']
       [''Failed to retrieve alerts''] api (getAlerts aparams api)
   \<and> errorDiscipline [''alertId is required''] [''Failed to retrieve alert''] api
       (getAlert alertId api)
   \<and> errorDiscipline
       [''alertId is required'', ''Invalid status. Must be one of: Pending, Verified, Rejected'']
       [''Failed to update alert status''] api (updateAlertStatus alertId newStatus api)
   \<and> errorDiscipline
       [''Image file is required'', ''maxResults must be between 1 and 100'',
        ''similarityThreshold must be between 0 and 100'']
       [''Failed to match face''] api (matchFace img maxResults threshold createAlert senderId api)
   \<and> errorDiscipline
       [''Image file is required'', ''Name is required'',
        ''Invalid image type. Supported: JPEG, PNG, BMP, GIF'']
       [''Failed to enroll image''] api
       (uploadSingleImage img nm optId crime gen st dis age aug api)
   \<and> errorDiscipline
       ([''At least one image is required'', ''Name is required'']
        @ map (\<lambda>i. ''Invalid image type: '' @ file_name i @ ''. Supported: JPEG, PNG, BMP, GIF'')
            imgs)
       [''Failed to enroll images''] api
       (uploadMultipleImages imgs nm optId optCrime aug api)
   \<and> errorDiscipline
       [''Excel/CSV file is required'', ''Invalid file type. Supported: .xlsx, .xls, .csv'']
       [''Failed to enroll from Excel/CSV''] api (enrollBulk excel folder api)
   \<and> errorDiscipline
       [''image_url is required'', ''image_url must be a valid HTTP/HTTPS URL'',
        ''max_results must be between 1 and 100'',
        ''similarity_threshold must be between 0 and 100'']
       [''Failed to match face from URL''] api (matchFaceFromUrl mreq api)
   \<and> errorDiscipline
       [''Either s3_key or image_url must be provided'', ''s3_key cannot be empty'',
        ''image_url cannot be empty'', ''image_url must be a valid HTTP/HTTPS URL'']
       [''Failed to generate presigned URL''] api (getPresignedUrl ureq api)
   \<and> helperDiscipline [''s3Key is required''] api (getPresignedUrlFromS3Key s3Key api)
   \<and> helperDiscipline
       [''imageUrl is required'', ''image_url must be a valid HTTP/HTTPS URL'']
       api (getPresignedUrlFromImageUrl imageUrl api)
   \<and> errorDiscipline [] [''Failed to retrieve criminals'', ''Failed to retrieve states''] api
       (getUniqueStates api)
   \<and> (if stateName = [] \<or> trim stateName = [] then
          getDistrictsByState stateName api = ([], Inr [])
        else
          errorDiscipline [] [''Failed to retrieve criminals'', ''Failed to retrieve districts'']
            api (getDistrictsByState stateName api))
   \<and> (limitArg < 1 \<or> limitArg > 1000 \<longrightarrow>
        getCriminals (Some (p\<lparr>cq_limit := Some limitArg\<rparr>)) api =
          ([], Inl \<lparr>message = ''limit must be between 1 and 1000'', statusCode = Some 400,
                    response = None\<rparr>))
   \<and> (offsetArg < 0 \<longrightarrow>
        getCriminals (Some (p\<lparr>cq_limit := None, cq_offset := Some offsetArg\<rparr>)) api =
          ([], Inl \<lparr>message = ''offset must be non-negative'', statusCode = Some 400,
                    response = None\<rparr>))
   \<and> (trim alertId = [] \<longrightarrow>
        updateAlertStatus alertId newStatus api =
          ([], Inl \<lparr>message = ''alertId is required'', statusCode = Some 400,
                    response = None\<rparr>))
   \<and> (trim alertId \<noteq> [] \<and> newStatus \<notin> set validStatuses \<longrightarrow>
        updateAlertStatus alertId newStatus api =
          ([], Inl \<lparr>message = ''Invalid status. Must be one of: Pending, Verified, Rejected'',
                    statusCode = Some 400, response = None\<rparr>))
   \<and> (err_response err = Some (code, body) \<longrightarrow>
        statusCode (responseRejected b err) = Some code \<and>
        response (responseRejected b err) = Some body)
   \<and> (err_response err = None \<longrightarrow>
        statusCode (responseRejected b err) = Some 0 \<and>
        response (responseRejected b err) = None)
   \<and> catchClause msg (Inl (ThrownApiError e) :: thrown + jsval) = Inl e
   \<and> catchClause msg (Inl (ThrownOther m) :: thrown + jsval) =
       Inl \<lparr>message = msg, statusCode = Some 500, response = None\<rparr>"
proof -
  have v1: "limitArg < 1 \<or> limitArg > 1000 \<longrightarrow>
        getCriminals (Some (p\<lparr>cq_limit := Some limitArg\<rparr>)) api =
          ([], Inl \<lparr>message = ''limit must be between 1 and 1000'', statusCode = Some 400,
                    response = None\<rparr>)"
    by (auto simp: getCriminals_def param_or_def throwApiError_def newApiError_def)
  have v2: "offsetArg < 0 \<longrightarrow>
        getCriminals (Some (p\<lparr>cq_limit := None, cq_offset := Some offsetArg\<rparr>)) api =
          ([], Inl \<lparr>message = ''offset must be non-negative'', statusCode = Some 400,
                    response = None\<rparr>)"
    by (auto simp: getCriminals_def param_or_def throwApiError_def newApiError_def)
  have tr: "trim [] = []"
    by (simp add: trim_def)
  have v3: "trim alertId = [] \<longrightarrow>
        updateAlertStatus alertId newStatus api =
          ([], Inl \<lparr>message = ''alertId is required'', statusCode = Some 400,
                    response = None\<rparr>)"
    by (auto simp: updateAlertStatus_def throwApiError_def newApiError_def)
  have v4: "trim alertId \<noteq> [] \<and> newStatus \<notin> set validStatuses \<longrightarrow>
        updateAlertStatus alertId newStatus api =
          ([], Inl \<lparr>message = ''Invalid status. Must be one of: Pending, Verified, Rejected'',
                    statusCode = Some 400, response = None\<rparr>)"
    using tr by (auto simp: updateAlertStatus_def throwApiError_def newApiError_def)
  have c1: "catchClause msg (Inl (ThrownApiError e) :: thrown + jsval) = Inl e"
    by (simp add: catchClause_def)
  have c2: "catchClause msg (Inl (ThrownOther m) :: thrown + jsval) =
       Inl \<lparr>message = msg, statusCode = Some 500, response = None\<rparr>"
    by (simp add: catchClause_def newApiError_def)
  show ?thesis
    using discipline_getCriminals [of api params] discipline_getCriminal [of api pid]
      discipline_updateCriminal [of api pid updateData] discipline_getAlerts [of api aparams]
      discipline_getAlert [of api alertId] discipline_updateAlertStatus [of api alertId newStatus]
      discipline_matchFace [of api img maxResults threshold createAlert senderId]
      discipline_uploadSingleImage [of api img nm optId crime gen st dis age aug]
      discipline_uploadMultipleImages [of imgs api nm optId optCrime aug]
      discipline_enrollBulk [of api excel folder] discipline_matchFaceFromUrl [of api mreq]
      discipline_getPresignedUrl [of api ureq]
      discipline_getPresignedUrlFromS3Key [of api s3Key]
      discipline_getPresignedUrlFromImageUrl [of api imageUrl]
      discipline_getUniqueStates [of api] discipline_getDistrictsByState [of stateName api]
      v1 v2 v3 v4 c1 c2
      responseRejected_wraps [of err code body b] responseRejected_no_response [of err b]
    by blast
qed

theorem accessor_error_handling_witness:
  "getCriminals
     (Some \<lparr>cq_limit = Some 0, cq_offset = None, cq_search = None, cq_crime_type = None,
            cq_state = None, cq_district = None, cq_gender = None\<rparr>) down_api
     = ([], Inl \<lparr>message = ''limit must be between 1 and 1000'', statusCode = Some 400,
                 response = None\<rparr>)
   \<and> getCriminals
     (Some \<lparr>cq_limit = None, cq_offset = Some (- 1), cq_search = None, cq_crime_type = None,
            cq_state = None, cq_district = None, cq_gender = None\<rparr>) down_api
     = ([], Inl \<lparr>message = ''offset must be non-negative'', statusCode = Some 400,
                 response = None\<rparr>)
   \<and> updateAlertStatus ''  '' ''Verified'' down_api
     = ([], Inl \<lparr>message = ''alertId is required'', statusCode = Some 400, response = None\<rparr>)
   \<and> updateAlertStatus ''a1'' ''Done'' down_api
     = ([], Inl \<lparr>message = ''Invalid status. Must be one of: Pending, Verified, Rejected'',
                 statusCode = Some 400, response = None\<rparr>)
   \<and> statusCode (responseRejected ''https://api.example/''
        \<lparr>err_response = Some (503, JObj [(''detail'', JStr ''down'')]),
         err_request = True, err_message = ''Request failed''\<rparr>) = Some 503
   \<and> response (responseRejected ''https://api.example/''
        \<lparr>err_response = Some (503, JObj [(''detail'', JStr ''down'')]),
         err_request = True, err_message = ''Request failed''\<rparr>)
       = Some (JObj [(''detail'', JStr ''down'')])
   \<and> statusCode (responseRejected ''https://api.example/''
        \<lparr>err_response = None, err_request = True, err_message = ''timeout''\<rparr>) = Some 0
   \<and> response (responseRejected ''https://api.example/''
        \<lparr>err_response = None, err_request = True, err_message = ''timeout''\<rparr>) = None
   \<and> snd (updateAlertStatus ''a1'' ''Verified'' down_api)
     = Inl \<lparr>message = ''down'', statusCode = Some 503,
            response = Some (JObj [(''detail'', JStr ''down'')])\<rparr>"
proof -
  have t1: "trim ''  '' = []"
    by (simp add: trim_def isWhiteSpace_def)
  have t2: "trim ''a1'' \<noteq> [] \<and> ''Done'' \<notin> set validStatuses"
    by (simp add: trim_def isWhiteSpace_def validStatuses_def)
  have last: "snd (updateAlertStatus ''a1'' ''Verified'' down_api)
     = Inl \<lparr>message = ''down'', statusCode = Some 503,
            response = Some (JObj [(''detail'', JStr ''down'')])\<rparr>"
    by (simp add: updateAlertStatus_def down_api_def trim_def isWhiteSpace_def
          validStatuses_def Let_def send_def catchClause_def responseRejected_def
          newApiError_def or_else_def)
  show ?thesis
    using t1 t2 last
      accessor_error_handling [where api = down_api and alertId = "''  ''"
        and newStatus = "''Verified''" and limitArg = 0
        and p = "\<lparr>cq_limit = Some 0, cq_offset = None, cq_search = None, cq_crime_type = None,
          cq_state = None, cq_district = None, cq_gender = None\<rparr>"
        and offsetArg = "- 1"
        and err = "\<lparr>err_response = Some (503, JObj [(''detail'', JStr ''down'')]),
          err_request = True, err_message = ''Request failed''\<rparr>"
        and code = 503 and body = "JObj [(''detail'', JStr ''down'')]"
        and b = "''https://api.example/''"]
      accessor_error_handling [where api = down_api and alertId = "''a1''"
        and newStatus = "''Done''" and limitArg = 0
        and p = "\<lparr>cq_limit = None, cq_offset = Some (- 1), cq_search = None,
          cq_crime_type = None, cq_state = None, cq_district = None, cq_gender = None\<rparr>"
        and offsetArg = "- 1"
        and err = "\<lparr>err_response = None, err_request = True, err_message = ''timeout''\<rparr>"
        and b = "''https://api.example/''"]
    by simp
qed

lemma unwrap_envelope: "unwrapData (JObj ((''data'', T) # extra)) = Inr T"
  by (simp add: unwrapData_def)

lemma unwrap_bare: "\<not> truthy T \<or> data_in T = Inr False \<Longrightarrow> unwrapData T = Inr T"
  by (auto simp: unwrapData_def)

text \<open>
  C6, as stated, fails for \<open>matchFace\<close> and \<open>uploadSingleImage\<close>: given an enveloped
  body they return the envelope itself, which is not what they return for the bare
  payload.
\<close>

theorem envelope_not_unwrapped_by_match_and_enroll:
  "snd (matchFace (Some \<lparr>file_name = ''q.png'', file_type = ''image/png'', file_size = 2048\<rparr>)
          5 80 True None
          \<lparr>baseURL = ''https://api.example/'',
           transport = \<lambda>req. Inr (JObj [(''data'',
             JObj [(''query_image_url'', JStr ''u''), (''matches'', JArr []),
                   (''total_matches'', JNum 0)])])\<rparr>)
     \<noteq> snd (matchFace (Some \<lparr>file_name = ''q.png'', file_type = ''image/png'', file_size = 2048\<rparr>)
          5 80 True None
          \<lparr>baseURL = ''https://api.example/'',
           transport = \<lambda>req. Inr (
             JObj [(''query_image_url'', JStr ''u''), (''matches'', JArr []),
                   (''total_matches'', JNum 0)])\<rparr>)
   \<and> snd (matchFace (Some \<lparr>file_name = ''q.png'', file_type = ''image/png'', file_size = 2048\<rparr>)
          5 80 True None
          \<lparr>baseURL = ''https://api.example/'',
           transport = \<lambda>req. Inr (JObj [(''data'',
             JObj [(''query_image_url'', JStr ''u''), (''matches'', JArr []),
                   (''total_matches'', JNum 0)])])\<rparr>)
     = Inr (JObj [(''data'',
             JObj [(''query_image_url'', JStr ''u''), (''matches'', JArr []),
                   (''total_matches'', JNum 0)])])
   \<and> snd (uploadSingleImage
          (Some \<lparr>file_name = ''q.png'', file_type = ''image/png'', file_size = 2048\<rparr>)
          ''A'' None ''Theft'' None ''S'' ''D'' ''20-30'' False
          \<lparr>baseURL = ''https://api.example/'',
           transport = \<lambda>req. Inr (JObj [(''data'',
             JObj [(''success'', JBool True), (''message'', JStr ''ok'')])])\<rparr>)
     \<noteq> snd (uploadSingleImage
          (Some \<lparr>file_name = ''q.png'', file_type = ''image/png'', file_size = 2048\<rparr>)
          ''A'' None ''Theft'' None ''S'' ''D'' ''20-30'' False
          \<lparr>baseURL = ''https://api.example/'',
           transport = \<lambda>req. Inr (
             JObj [(''success'', JBool True), (''message'', JStr ''ok'')])\<rparr>)"
  by (simp add: matchFace_def uploadSingleImage_def validTypes_def toLowerCase_def lowerChar_def
        trim_def isWhiteSpace_def Let_def send_def catchClause_def)

text \<open>
  C6, amended. The criminals and alerts accessors (\<open>getCriminals\<close>, \<open>getCriminal\<close>,
  \<open>updateCriminal\<close>, \<open>getAlerts\<close>, \<open>getAlert\<close>, \<open>updateAlertStatus\<close>) return the
  payload \<open>T\<close> both for the envelope \<open>{data: T, ...}\<close> and for the bare \<open>T\<close>, when
  the bare \<open>T\<close> is falsy, an array, or an object without a property \<open>data\<close>.
  \<open>matchFace\<close> and \<open>uploadSingleImage\<close> return the body unchanged, whatever its shape.
\<close>

theorem envelope_unwrapped_by_criminals_and_alerts:
  assumes bare: "\<not> truthy T \<or> data_in T = Inr False"
  shows
  "snd (getCriminals params \<lparr>baseURL = b, transport = \<lambda>req. Inr (JObj ((''data'', T) # extra))\<rparr>)
     = snd (getCriminals params \<lparr>baseURL = b, transport = \<lambda>req. Inr T\<rparr>)
   \<and> snd (getCriminals None \<lparr>baseURL = b, transport = \<lambda>req. Inr T\<rparr>) = Inr T
   \<and> snd (getCriminal pid \<lparr>baseURL = b, transport = \<lambda>req. Inr (JObj ((''data'', T) # extra))\<rparr>)
     = snd (getCriminal pid \<lparr>baseURL = b, transport = \<lambda>req. Inr T\<rparr>)
   \<and> snd (getCriminal pid \<lparr>baseURL = b, transport = \<lambda>req. Inr T\<rparr>)
     = (if trim pid = [] then
          Inl \<lparr>message = ''personId is required'', statusCode = Some 400, response = None\<rparr>
        else Inr T)
   \<and> snd (updateCriminal pid updateData
            \<lparr>baseURL = b, transport = \<lambda>req. Inr (JObj ((''data'', T) # extra))\<rparr>)
     = snd (updateCriminal pid updateData \<lparr>baseURL = b, transport = \<lambda>req. Inr T\<rparr>)
   \<and> snd (updateCriminal pid updateData \<lparr>baseURL = b, transport = \<lambda>req. Inr T\<rparr>)
     = (if trim pid = [] then
          Inl \<lparr>message = ''personId is required'', statusCode = Some 400, response = None\<rparr>
        else Inr T)
   \<and> snd (getAlerts aparams \<lparr>baseURL = b, transport = \<lambda>req. Inr (JObj ((''data'', T) # extra))\<rparr>)
     = snd (getAlerts aparams \<lparr>baseURL = b, transport = \<lambda>req. Inr T\<rparr>)
   \<and> snd (getAlerts None \<lparr>baseURL = b, transport = \<lambda>req. Inr T\<rparr>) = Inr T
   \<and> snd (getAlert alertId \<lparr>baseURL = b, transport = \<lambda>req. Inr (JObj ((''data'', T) # extra))\<rparr>)
     = snd (getAlert alertId \<lparr>baseURL = b, transport = \<lambda>req. Inr T\<rparr>)
   \<and> snd (getAlert alertId \<lparr>baseURL = b, transport = \<lambda>req. Inr T\<rparr>)
     = (if trim alertId = [] then
          Inl \<lparr>message = ''alertId is required'', statusCode = Some 400, response = None\<rparr>
        else Inr T)
   \<and> snd (updateAlertStatus alertId ''Verified''
            \<lparr>baseURL = b, transport = \<lambda>req. Inr (JObj ((''data'', T) # extra))\<rparr>)
     = snd (updateAlertStatus alertId ''Verified'' \<lparr>baseURL = b, transport = \<lambda>req. Inr T\<rparr>)
   \<and> snd (updateAlertStatus alertId ''Verified'' \<lparr>baseURL = b, transport = \<lambda>req. Inr T\<rparr>)
     = (if trim alertId = [] then
          Inl \<lparr>message = ''alertId is required'', statusCode = Some 400, response = None\<rparr>
        else Inr T)
   \<and> snd (matchFace (Some img) 5 80 createAlert senderId
            \<lparr>baseURL = b, transport = \<lambda>req. Inr anyBody\<rparr>) = Inr anyBody
   \<and> snd (uploadSingleImage (Some \<lparr>file_name = fname, file_type = ''image/png'', file_size = sz\<rparr>)
            ''A'' optId crime gen st dis age aug
            \<lparr>baseURL = b, transport = \<lambda>req. Inr anyBody\<rparr>) = Inr anyBody"
proof -
  have tr: "trim [] = []"
    by (simp add: trim_def)
  have ub: "unwrapData T = Inr T"
    by (rule unwrap_bare [OF bare])
  have gc: "snd (getCriminals params \<lparr>baseURL = b, transport = \<lambda>req. Inr (JObj ((''data'', T) # extra))\<rparr>)
     = snd (getCriminals params \<lparr>baseURL = b, transport = \<lambda>req. Inr T\<rparr>)"
    by (simp add: getCriminals_def throwApiError_def Let_def send_def catchClause_def
          unwrap_envelope ub)
  have gc0: "snd (getCriminals None \<lparr>baseURL = b, transport = \<lambda>req. Inr T\<rparr>) = Inr T"
    by (simp add: getCriminals_def param_or_def Let_def send_def catchClause_def ub)
  have g1: "snd (getCriminal pid \<lparr>baseURL = b, transport = \<lambda>req. Inr (JObj ((''data'', T) # extra))\<rparr>)
     = snd (getCriminal pid \<lparr>baseURL = b, transport = \<lambda>req. Inr T\<rparr>)"
    by (simp add: getCriminal_def throwApiError_def Let_def send_def catchClause_def
          unwrap_envelope ub)
  have g1v: "snd (getCriminal pid \<lparr>baseURL = b, transport = \<lambda>req. Inr T\<rparr>)
     = (if trim pid = [] then
          Inl \<lparr>message = ''personId is required'', statusCode = Some 400, response = None\<rparr>
        else Inr T)"
    using tr by (auto simp: getCriminal_def throwApiError_def newApiError_def Let_def send_def
          catchClause_def ub)
  have uc: "snd (updateCriminal pid updateData
            \<lparr>baseURL = b, transport = \<lambda>req. Inr (JObj ((''data'', T) # extra))\<rparr>)
     = snd (updateCriminal pid updateData \<lparr>baseURL = b, transport = \<lambda>req. Inr T\<rparr>)"
    by (simp add: updateCriminal_def throwApiError_def Let_def send_def catchClause_def
          unwrap_envelope ub)
  have ucv: "snd (updateCriminal pid updateData \<lparr>baseURL = b, transport = \<lambda>req. Inr T\<rparr>)
     = (if trim pid = [] then
          Inl \<lparr>message = ''personId is required'', statusCode = Some 400, response = None\<rparr>
        else Inr T)"
    using tr by (auto simp: updateCriminal_def throwApiError_def newApiError_def Let_def send_def
          catchClause_def ub)
  have ga: "snd (getAlerts aparams \<lparr>baseURL = b, transport = \<lambda>req. Inr (JObj ((''data'', T) # extra))\<rparr>)
     = snd (getAlerts aparams \<lparr>baseURL = b, transport = \<lambda>req. Inr T\<rparr>)"
    by (simp add: getAlerts_def throwApiError_def Let_def send_def catchClause_def
          unwrap_envelope ub)
  have ga0: "snd (getAlerts None \<lparr>baseURL = b, transport = \<lambda>req. Inr T\<rparr>) = Inr T"
    by (simp add: getAlerts_def param_or_def Let_def send_def catchClause_def ub)
  have a1: "snd (getAlert alertId \<lparr>baseURL = b, transport = \<lambda>req. Inr (JObj ((''data'', T) # extra))\<rparr>)
     = snd (getAlert alertId \<lparr>baseURL = b, transport = \<lambda>req. Inr T\<rparr>)"
    by (simp add: getAlert_def throwApiError_def Let_def send_def catchClause_def
          unwrap_envelope ub)
  have a1v: "snd (getAlert alertId \<lparr>baseURL = b, transport = \<lambda>req. Inr T\<rparr>)
     = (if trim alertId = [] then
          Inl \<lparr>message = ''alertId is required'', statusCode = Some 400, response = None\<rparr>
        else Inr T)"
    using tr by (auto simp: getAlert_def throwApiError_def newApiError_def Let_def send_def
          catchClause_def ub)
  have us: "snd (updateAlertStatus alertId ''Verified''
            \<lparr>baseURL = b, transport = \<lambda>req. Inr (JObj ((''data'', T) # extra))\<rparr>)
     = snd (updateAlertStatus alertId ''Verified'' \<lparr>baseURL = b, transport = \<lambda>req. Inr T\<rparr>)"
    by (simp add: updateAlertStatus_def throwApiError_def Let_def send_def catchClause_def
          unwrap_envelope ub)
  have usv: "snd (updateAlertStatus alertId ''Verified'' \<lparr>baseURL = b, transport = \<lambda>req. Inr T\<rparr>)
     = (if trim alertId = [] then
          Inl \<lparr>message = ''alertId is required'', statusCode = Some 400, response = None\<rparr>
        else Inr T)"
    using tr by (auto simp: updateAlertStatus_def validStatuses_def throwApiError_def
          newApiError_def Let_def send_def catchClause_def ub)
  have mf: "snd (matchFace (Some img) 5 80 createAlert senderId
            \<lparr>baseURL = b, transport = \<lambda>req. Inr anyBody\<rparr>) = Inr anyBody"
    by (simp add: matchFace_def Let_def send_def catchClause_def)
  have up: "snd (uploadSingleImage (Some \<lparr>file_name = fname, file_type = ''image/png'', file_size = sz\<rparr>)
            ''A'' optId crime gen st dis age aug
            \<lparr>baseURL = b, transport = \<lambda>req. Inr anyBody\<rparr>) = Inr anyBody"
    by (simp add: uploadSingleImage_def validTypes_def toLowerCase_def lowerChar_def
          trim_def isWhiteSpace_def Let_def send_def catchClause_def)
  show ?thesis
    using gc gc0 g1 g1v uc ucv ga ga0 a1 a1v us usv mf up by blast
qed

theorem envelope_unwrapped_witness:
  "data_in (JArr [JObj [(''person_id'', JStr ''p1'')]]) = Inr False
   \<and> snd (getCriminals None
        \<lparr>baseURL = ''https://api.example/'',
         transport = \<lambda>req. Inr (JObj [(''data'', JArr [JObj [(''person_id'', JStr ''p1'')]]),
                                      (''count'', JNum 1)])\<rparr>)
     = Inr (JArr [JObj [(''person_id'', JStr ''p1'')]])
   \<and> snd (getCriminals None
        \<lparr>baseURL = ''https://api.example/'',
         transport = \<lambda>req. Inr (JArr [JObj [(''person_id'', JStr ''p1'')]])\<rparr>)
     = Inr (JArr [JObj [(''person_id'', JStr ''p1'')]])"
proof -
  have h: "\<not> truthy (JArr [JObj [(''person_id'', JStr ''p1'')]]) \<or>
      data_in (JArr [JObj [(''person_id'', JStr ''p1'')]]) = Inr False"
    by simp
  note th = envelope_unwrapped_by_criminals_and_alerts [OF h,
        where params = None and b = "''https://api.example/''"
          and extra = "[(''count'', JNum 1)]"]
  show ?thesis
    using h th [THEN conjunct1] th [THEN conjunct2, THEN conjunct1]
    by simp
qed

section \<open>Properties of the complaint buckets\<close>

lemma length_filter_split:
  "length (filter P xs) + length (filter (\<lambda>x. \<not> P x) xs) = length xs"
  by (induction xs) auto

text \<open>
  C10. The open count and the closed count of the analytics summary add up to the
  total: the open filter is the negation of the closed filter, so a complaint of any
  status, also an unrecognised one, is counted by exactly one of the two.
\<close>

theorem open_plus_closed_is_total:
  "openComplaints cs + closedComplaints cs = totalComplaints cs
   \<and> (status c \<noteq> ''Resolved'' \<and> status c \<noteq> ''Closed'' \<and>
        status c \<noteq> ''closed'' \<and> status c \<noteq> ''resolved'')
      = (\<not> (status c = ''Resolved'' \<or> status c = ''Closed'' \<or>
             status c = ''closed'' \<or> status c = ''resolved''))
   \<and> openComplaints [c] + closedComplaints [c] = 1"
proof -
  let ?closed = "\<lambda>c. status c = ''Resolved'' \<or> status c = ''Closed'' \<or>
                     status c = ''closed'' \<or> status c = ''resolved''"
  have neg: "(\<lambda>c. status c \<noteq> ''Resolved'' \<and> status c \<noteq> ''Closed'' \<and>
                  status c \<noteq> ''closed'' \<and> status c \<noteq> ''resolved'') = (\<lambda>c. \<not> ?closed c)"
    by auto
  have sum: "openComplaints xs + closedComplaints xs = length xs" for xs
    unfolding openComplaints_def closedComplaints_def neg
    using length_filter_split [of ?closed xs] by simp
  show ?thesis
    using sum [of cs] sum [of "[c]"] by (auto simp: totalComplaints_def)
qed

text \<open>
  C4. The three triage buckets are pairwise disjoint. A complaint of the list is in
  the pending bucket exactly when its status is one of the four pending spellings, in
  the open bucket exactly for the two open spellings, in the closed bucket exactly for
  the four closed spellings; so a complaint with an accepted spelling is in exactly one
  bucket, and a complaint with any other status is in none.
\<close>

theorem triage_buckets_partition:
  "set (getFilteredComplaints ''pending'' cs) \<inter> set (getFilteredComplaints ''open'' cs) = {}
   \<and> set (getFilteredComplaints ''pending'' cs) \<inter> set (getFilteredComplaints ''closed'' cs) = {}
   \<and> set (getFilteredComplaints ''open'' cs) \<inter> set (getFilteredComplaints ''closed'' cs) = {}
   \<and> (c \<in> set (getFilteredComplaints ''pending'' cs))
       = (c \<in> set cs \<and> status c \<in> {''Pending'', ''pending'', ''submitted'', ''Submitted''})
   \<and> (c \<in> set (getFilteredComplaints ''open'' cs))
       = (c \<in> set cs \<and> status c \<in> {''Open'', ''open''})
   \<and> (c \<in> set (getFilteredComplaints ''closed'' cs))
       = (c \<in> set cs \<and> status c \<in> {''Closed'', ''closed'', ''Resolved'', ''resolved''})
   \<and> length (filter (\<lambda>tab. c \<in> set (getFilteredComplaints tab cs))
                 [''pending'', ''open'', ''closed''])
       = (if c \<in> set cs \<and>
             status c \<in> {''Pending'', ''pending'', ''submitted'', ''Submitted'',
                         ''Open'', ''open'',
                         ''Closed'', ''closed'', ''Resolved'', ''resolved''}
          then 1 else 0)"
proof -
  have p: "(c \<in> set (getFilteredComplaints ''pending'' xs))
       = (c \<in> set xs \<and> status c \<in> {''Pending'', ''pending'', ''submitted'', ''Submitted''})"
    for c xs
    by (auto simp: getFilteredComplaints_def)
  have o: "(c \<in> set (getFilteredComplaints ''open'' xs))
       = (c \<in> set xs \<and> status c \<in> {''Open'', ''open''})" for c xs
    by (auto simp: getFilteredComplaints_def)
  have cl: "(c \<in> set (getFilteredComplaints ''closed'' xs))
       = (c \<in> set xs \<and> status c \<in> {''Closed'', ''closed'', ''Resolved'', ''resolved''})"
    for c xs
    by (auto simp: getFilteredComplaints_def)
  have d1: "set (getFilteredComplaints ''pending'' cs) \<inter> set (getFilteredComplaints ''open'' cs) = {}"
    using p o by auto
  have d2: "set (getFilteredComplaints ''pending'' cs) \<inter> set (getFilteredComplaints ''closed'' cs) = {}"
    using p cl by auto
  have d3: "set (getFilteredComplaints ''open'' cs) \<inter> set (getFilteredComplaints ''closed'' cs) = {}"
    using o cl by auto
  have cnt: "length (filter (\<lambda>tab. c \<in> set (getFilteredComplaints tab cs))
                 [''pending'', ''open'', ''closed''])
       = (if c \<in> set cs \<and>
             status c \<in> {''Pending'', ''pending'', ''submitted'', ''Submitted'',
                         ''Open'', ''open'',
                         ''Closed'', ''closed'', ''Resolved'', ''resolved''}
          then 1 else 0)"
    by (auto simp: p o cl)
  show ?thesis
    using d1 d2 d3 cnt p [of c cs] o [of c cs] cl [of c cs] by blast
qed

section \<open>Properties of the monthly trend\<close>

lemma obj_set_present:
  "distinct (map fst ms) \<Longrightarrow> map_of ms k = Some b \<Longrightarrow>
   obj_set ms k v = map (\<lambda>(k', b'). if k' = k then (k', v) else (k', b')) ms"
proof (induction ms)
  case Nil
  then show ?case by simp
next
  case (Cons a ms)
  obtain k' b' where a: "a = (k', b')" by (cases a)
  show ?case
  proof (cases "k' = k")
    case True
    with Cons.prems a have "k \<notin> fst ` set ms" by auto
    then have "map (\<lambda>(k', b'). if k' = k then (k', v) else (k', b')) ms = ms"
      by (induction ms) auto
    with True a show ?thesis by simp
  next
    case False
    with Cons a show ?thesis by simp
  qed
qed

lemma obj_update_map:
  assumes d: "distinct (map fst ms)"
  shows "(case map_of ms k of Some b \<Rightarrow> obj_set ms k (f b) | None \<Rightarrow> ms)
         = map (\<lambda>(k', b). (k', if k' = k then f b else b)) ms"
proof (cases "map_of ms k")
  case None
  then have "k \<notin> fst ` set ms" by (simp add: map_of_eq_None_iff)
  then have "map (\<lambda>(k', b). (k', if k' = k then f b else b)) ms = ms"
    by (induction ms) auto
  with None show ?thesis by simp
next
  case (Some b)
  have same: "b' = b" if "(k, b') \<in> set ms" for b'
    using that Some d by (metis map_of_is_SomeI option.inject)
  have "(case map_of ms k of Some b \<Rightarrow> obj_set ms k (f b) | None \<Rightarrow> ms)
      = map (\<lambda>(k', b'). if k' = k then (k', f b) else (k', b')) ms"
    unfolding Some option.case by (rule obj_set_present [OF d Some])
  also have "\<dots> = map (\<lambda>(k', b). (k', if k' = k then f b else b)) ms"
    by (rule map_cong) (auto dest: same)
  finally show ?thesis .
qed

lemma fold_counts:
  assumes step: "\<And>ms k. distinct (map fst ms) \<Longrightarrow>
                   step ms k = map (\<lambda>(k', b). (k', if k' = k then f b else b)) ms"
    and d: "distinct (map fst ms)"
  shows "foldl (\<lambda>ms x. step ms (key x)) ms xs
         = map (\<lambda>(k, b). (k, (f ^^ length (filter (\<lambda>x. key x = k) xs)) b)) ms"
  using d
proof (induction xs arbitrary: ms)
  case Nil
  then show ?case by simp
next
  case (Cons x xs)
  let ?ms' = "map (\<lambda>(k', b). (k', if k' = key x then f b else b)) ms"
  have keys: "map fst ?ms' = map fst ms" by (induction ms) auto
  have d': "distinct (map fst ?ms')" unfolding keys by (rule Cons.prems)
  have "foldl (\<lambda>ms x. step ms (key x)) ms (x # xs) = foldl (\<lambda>ms x. step ms (key x)) ?ms' xs"
    by (simp add: step [OF Cons.prems])
  also have "\<dots> = map (\<lambda>(k, b). (k, (f ^^ length (filter (\<lambda>x. key x = k) xs)) b)) ?ms'"
    by (rule Cons.IH [OF d'])
  also have "\<dots> = map (\<lambda>(k, b). (k, (f ^^ length (filter (\<lambda>x. key x = k) (x # xs))) b)) ms"
    by (induction ms) (auto simp: funpow_swap1)
  finally show ?case .
qed

lemma bump_complaints_funpow_Suc:
  "((\<lambda>b. b\<lparr>complaints := Suc (complaints b)\<rparr>) ^^ n) b = b\<lparr>complaints := complaints b + n\<rparr>"
  by (induction n) auto

lemma bump_rti_funpow_Suc:
  "((\<lambda>b. b\<lparr>rti := Suc (rti b)\<rparr>) ^^ n) b = b\<lparr>rti := rti b + n\<rparr>"
  by (induction n) auto

lemma month_index_distinct:
  fixes m :: nat
  assumes "i \<le> 5" "j \<le> 5" "i \<noteq> j"
  shows "nat ((int m - int i) mod 12) \<noteq> nat ((int m - int j) mod 12)"
proof
  assume "nat ((int m - int i) mod 12) = nat ((int m - int j) mod 12)"
  then have "(int m - int i) mod 12 = (int m - int j) mod 12"
    by simp
  then have "(12::int) dvd (int m - int i) - (int m - int j)"
    by (simp add: mod_eq_dvd_iff)
  then have "(12::int) dvd int j - int i"
    by simp
  with assms show False
    by presburger
qed

lemma month_index_less: "nat ((int m - int i) mod 12) < 12"
  by simp

lemma initMonths_closed:
  assumes loc: "distinct (map loc [0..<12])"
  shows "initMonths loc y m =
     map (\<lambda>i. (loc (nat ((int m - int i) mod 12)),
               \<lparr>name = loc (nat ((int m - int i) mod 12)), complaints = 0, rti = 0\<rparr>))
         [5, 4, 3, 2, 1, 0]"
proof -
  have inj: "inj_on loc {0..<12}"
    using loc by (simp add: distinct_map)
  have ne: "loc (nat ((int m - int i) mod 12)) \<noteq> loc (nat ((int m - int j) mod 12))"
    if "i \<le> 5" "j \<le> 5" "i \<noteq> j" for i j
  proof
    assume "loc (nat ((int m - int i) mod 12)) = loc (nat ((int m - int j) mod 12))"
    then have "nat ((int m - int i) mod 12) = nat ((int m - int j) mod 12)"
      using inj month_index_less [of m i] month_index_less [of m j]
      by (auto dest!: inj_onD [OF inj])
    with month_index_distinct [OF that] show False by simp
  qed
  show ?thesis
    unfolding initMonths_def newDate_def
    using ne [of 0 1] ne [of 0 2] ne [of 0 3] ne [of 0 4] ne [of 0 5] ne [of 1 0] ne [of 1 2] ne [of 1 3] ne [of 1 4] ne [of 1 5] ne [of 2 0] ne [of 2 1] ne [of 2 3] ne [of 2 4] ne [of 2 5] ne [of 3 0] ne [of 3 1] ne [of 3 2] ne [of 3 4] ne [of 3 5] ne [of 4 0] ne [of 4 1] ne [of 4 2] ne [of 4 3] ne [of 4 5] ne [of 5 0] ne [of 5 1] ne [of 5 2] ne [of 5 3] ne [of 5 4]
    by (simp add: Let_def)
qed

lemma countComplaint_map:
  "distinct (map fst ms) \<Longrightarrow>
   countComplaint ms k =
     map (\<lambda>(k', b). (k', if k' = k then b\<lparr>complaints := complaints b + 1\<rparr> else b)) ms"
  unfolding countComplaint_def by (rule obj_update_map)

lemma countRTI_map:
  "distinct (map fst ms) \<Longrightarrow>
   countRTI ms k = map (\<lambda>(k', b). (k', if k' = k then b\<lparr>rti := rti b + 1\<rparr> else b)) ms"
  unfolding countRTI_def by (rule obj_update_map)

text \<open>
  C9. The monthly trend has exactly six buckets, in the order of the loop: the short
  names of the month five months back up to the current month. The count of a bucket
  is the number of complaints (of RTI requests) whose \<open>created_at\<close> prints the same
  short month name as the bucket's key; the year of the record plays no part, so a
  record of the same month of any other year is counted in that bucket. The twelve
  month names of the locale are assumed distinct.
\<close>

theorem monthly_trend_buckets:
  assumes loc: "distinct (map loc [0..<12])"
  shows "monthlyTrend loc parseDate nowYear nowMonth allComplaints allRTIs =
     map (\<lambda>i. \<lparr>name = loc (nat ((int nowMonth - int i) mod 12)),
               complaints = length (filter (\<lambda>c. monthShort loc (parseDate (created_at c))
                                              = loc (nat ((int nowMonth - int i) mod 12)))
                                    allComplaints),
               rti = length (filter (\<lambda>r. monthShort loc (parseDate (rti_created_at r))
                                       = loc (nat ((int nowMonth - int i) mod 12)))
                             allRTIs)\<rparr>)
         [5, 4, 3, 2, 1, 0]
     \<and> length (monthlyTrend loc parseDate nowYear nowMonth allComplaints allRTIs) = 6
     \<and> distinct (map name (monthlyTrend loc parseDate nowYear nowMonth allComplaints allRTIs))
     \<and> monthShort loc (LocalDate y1 mo) = monthShort loc (LocalDate y2 mo)"
proof -
  let ?k = "\<lambda>i. loc (nat ((int nowMonth - int i) mod 12))"
  let ?ms0 = "map (\<lambda>i. (?k i, \<lparr>name = ?k i, complaints = 0, rti = 0\<rparr>)) [5, 4, 3, 2, 1, 0::nat]"
  let ?kc = "\<lambda>c. monthShort loc (parseDate (created_at c))"
  let ?kr = "\<lambda>r. monthShort loc (parseDate (rti_created_at r))"
  have init: "initMonths loc nowYear nowMonth = ?ms0"
    by (rule initMonths_closed [OF loc])
  have inj: "inj_on loc {0..<12}"
    using loc by (simp add: distinct_map)
  have injf: "inj_on (\<lambda>i. nat ((int nowMonth - int i) mod 12)) {0..5}"
  proof (rule inj_onI)
    fix i j :: nat
    assume i: "i \<in> {0..5}" and j: "j \<in> {0..5}"
      and eq: "nat ((int nowMonth - int i) mod 12) = nat ((int nowMonth - int j) mod 12)"
    show "i = j"
    proof (rule ccontr)
      assume ne: "i \<noteq> j"
      from i have i5: "i \<le> 5" by simp
      from j have j5: "j \<le> 5" by simp
      from month_index_distinct [OF i5 j5 ne, of nowMonth] eq show False by blast
    qed
  qed
  have six: "distinct [5, 4, 3, 2, 1, 0::nat]" by simp
  have six_sub: "set [5, 4, 3, 2, 1, 0::nat] \<subseteq> {0..5}" by simp
  have idx: "distinct (map (\<lambda>i. nat ((int nowMonth - int i) mod 12)) [5, 4, 3, 2, 1, 0::nat])"
    unfolding distinct_map using six inj_on_subset [OF injf six_sub] by (rule conjI)
  have mem: "nat ((int nowMonth - int i) mod 12) \<in> {0..<12}" for i
    using month_index_less [of nowMonth i] by (simp only: atLeastLessThan_iff le0 simp_thms)
  have sub: "set (map (\<lambda>i. nat ((int nowMonth - int i) mod 12)) [5, 4, 3, 2, 1, 0::nat]) \<subseteq> {0..<12}"
    unfolding set_map using mem by blast
  have "distinct (map loc (map (\<lambda>i. nat ((int nowMonth - int i) mod 12)) [5, 4, 3, 2, 1, 0::nat]))"
    by (rule distinct_map [THEN iffD2, OF conjI [OF idx inj_on_subset [OF inj sub]]])
  then have dk: "distinct (map ?k [5, 4, 3, 2, 1, 0::nat])"
    by (simp only: map_map o_def)
  have d0: "distinct (map fst ?ms0)"
    using dk by (simp only: map_map o_def fst_conv)
  let ?ms1 = "map (\<lambda>(k, b). (k, ((\<lambda>b. b\<lparr>complaints := complaints b + 1\<rparr>)
                       ^^ length (filter (\<lambda>c. ?kc c = k) allComplaints)) b)) ?ms0"
  have s1: "foldl (\<lambda>months c. countComplaint months (?kc c)) ?ms0 allComplaints = ?ms1"
    by (rule fold_counts [OF countComplaint_map d0])
  have keys1: "map fst ?ms1 = map fst ?ms0"
    by (simp only: map_map o_def split_def fst_conv)
  have d1: "distinct (map fst ?ms1)"
    unfolding keys1 by (rule d0)
  let ?ms2 = "map (\<lambda>(k, b). (k, ((\<lambda>b. b\<lparr>rti := rti b + 1\<rparr>)
                       ^^ length (filter (\<lambda>r. ?kr r = k) allRTIs)) b)) ?ms1"
  have s2: "foldl (\<lambda>months r. countRTI months (?kr r)) ?ms1 allRTIs = ?ms2"
    by (rule fold_counts [OF countRTI_map d1])
  have main: "monthlyTrend loc parseDate nowYear nowMonth allComplaints allRTIs =
     map (\<lambda>i. \<lparr>name = ?k i,
               complaints = length (filter (\<lambda>c. ?kc c = ?k i) allComplaints),
               rti = length (filter (\<lambda>r. ?kr r = ?k i) allRTIs)\<rparr>)
         [5, 4, 3, 2, 1, 0]"
    unfolding monthlyTrend_def Let_def init s1 s2
    by (simp add: bump_complaints_funpow_Suc bump_rti_funpow_Suc)
  have names: "map name (monthlyTrend loc parseDate nowYear nowMonth allComplaints allRTIs)
       = map ?k [5, 4, 3, 2, 1, 0::nat]"
    unfolding main by simp
  show ?thesis
    using main dk unfolding names by simp
qed

theorem monthly_trend_buckets_witness:
  "distinct (map en_US [0..<12])
   \<and> monthlyTrend en_US
        (\<lambda>s. if s = ''2024-03-15'' then LocalDate 2024 2
              else if s = ''2023-03-01'' then LocalDate 2023 2
              else InvalidDate)
        2024 4
        [\<lparr>complaint_id = ''a'', created_at = ''2024-03-15'', complaint_type = ''Theft'',
          status = ''Open''\<rparr>,
         \<lparr>complaint_id = ''b'', created_at = ''2023-03-01'', complaint_type = ''Noise'',
          status = ''closed''\<rparr>,
         \<lparr>complaint_id = ''c'', created_at = ''garbage'', complaint_type = ''Noise'',
          status = ''closed''\<rparr>]
        [\<lparr>rti_id = ''r'', rti_created_at = ''2024-03-15'', rti_status = ''Open''\<rparr>]
      = [\<lparr>name = ''Dec'', complaints = 0, rti = 0\<rparr>,
         \<lparr>name = ''Jan'', complaints = 0, rti = 0\<rparr>,
         \<lparr>name = ''Feb'', complaints = 0, rti = 0\<rparr>,
         \<lparr>name = ''Mar'', complaints = 2, rti = 1\<rparr>,
         \<lparr>name = ''Apr'', complaints = 0, rti = 0\<rparr>,
         \<lparr>name = ''May'', complaints = 0, rti = 0\<rparr>]"
proof -
  have d: "distinct (map en_US [0..<12])"
    by (simp add: en_US_def upt_rec)
  show ?thesis
    using d monthly_trend_buckets [OF d, of
        "\<lambda>s. if s = ''2024-03-15'' then LocalDate 2024 2
              else if s = ''2023-03-01'' then LocalDate 2023 2
              else InvalidDate" 2024 4]
    by (simp add: en_US_def)
qed

end
